theory Spec2Isabelle
  imports Complex_Main "HOL-Library.Char_ord" "HOL-Library.List_Lexorder" "HOL-Library.AList"
begin

section \<open>JavaScript values\<close>

text \<open>
  The datasets are parsed JSON. A number is an IEEE double: a finite value (kept as the
  real it denotes; the sign of zero is not kept), one of the two infinities, or NaN.
  A property value is a JSON scalar: null, a boolean, a number or a string. A property
  that is absent reads as \<open>undefined\<close>, which is \<open>None\<close> of \<open>jsval option\<close>.
  A string is a list of code units; the model covers code units below 256.
\<close>

datatype jsnum = NaN | PosInf | NegInf | Fin real

datatype jsval = VNull | VBool bool | VNum jsnum | VStr string

datatype error = TypeError | LoadError string

text \<open>\<open>Number.isFinite\<close> and \<open>Number.isNaN\<close> on a number.\<close>

fun isFinite :: "jsnum \<Rightarrow> bool" where
  "isFinite (Fin q) = True"
| "isFinite NaN = False"
| "isFinite PosInf = False"
| "isFinite NegInf = False"

fun isNaN :: "jsnum \<Rightarrow> bool" where
  "isNaN NaN = True"
| "isNaN PosInf = False"
| "isNaN NegInf = False"
| "isNaN (Fin q) = False"

text \<open>ToBoolean: what \<open>!v\<close>, \<open>v || d\<close> and \<open>if (v)\<close> test.\<close>

fun truthy :: "jsval \<Rightarrow> bool" where
  "truthy VNull = False"
| "truthy (VBool b) = b"
| "truthy (VNum NaN) = False"
| "truthy (VNum (Fin q)) = (q \<noteq> 0)"
| "truthy (VNum PosInf) = True"
| "truthy (VNum NegInf) = True"
| "truthy (VStr s) = (s \<noteq> [])"

text \<open>The same test on a property read, where an absent property is \<open>undefined\<close>.\<close>

fun truthyOpt :: "jsval option \<Rightarrow> bool" where
  "truthyOpt None = False"
| "truthyOpt (Some v) = truthy v"

section \<open>Strings\<close>

text \<open>
  White space and line terminators of ECMAScript among the code units below 256:
  TAB, LF, VT, FF, CR, SP and NBSP. \<open>trim\<close>, \<open>parseInt\<close> and \<open>Number\<close> skip them.
\<close>

definition isWhiteSpace :: "char \<Rightarrow> bool" where
  "isWhiteSpace c = (of_char c \<in> {9, 10, 11, 12, 13, 32, 160 :: nat})"

definition trimStart :: "string \<Rightarrow> string" where
  "trimStart s = dropWhile isWhiteSpace s"

definition trim :: "string \<Rightarrow> string" where
  "trim s = rev (dropWhile isWhiteSpace (rev (dropWhile isWhiteSpace s)))"

text \<open>
  \<open>toUpperCase\<close> and \<open>toLowerCase\<close> on the letters A to Z and a to z. Every other
  code unit is left as it is: the code compares the mapped text with ASCII words and
  reads ASCII digits from it, and the accented letters that JavaScript also maps are in
  none of them.
\<close>

definition upperChar :: "char \<Rightarrow> char" where
  "upperChar c = (let n = of_char c :: nat in if 97 \<le> n \<and> n \<le> 122 then char_of (n - 32) else c)"

definition lowerChar :: "char \<Rightarrow> char" where
  "lowerChar c = (let n = of_char c :: nat in if 65 \<le> n \<and> n \<le> 90 then char_of (n + 32) else c)"

definition toUpperCase :: "string \<Rightarrow> string" where
  "toUpperCase s = map upperChar s"

definition toLowerCase :: "string \<Rightarrow> string" where
  "toLowerCase s = map lowerChar s"

definition startsWith :: "string \<Rightarrow> string \<Rightarrow> bool" where
  "startsWith s p = (take (length p) s = p)"

definition isDigit :: "char \<Rightarrow> bool" where
  "isDigit c = (let n = of_char c :: nat in 48 \<le> n \<and> n \<le> 57)"

definition digitVal :: "char \<Rightarrow> nat" where
  "digitVal c = of_char c - 48"

text \<open>The value of a run of decimal digits, most significant first.\<close>

definition digitsVal :: "string \<Rightarrow> nat" where
  "digitsVal ds = foldl (\<lambda>acc c. 10 * acc + digitVal c) 0 ds"

text \<open>
  \<open>parseInt(s, 10)\<close>: leading white space is skipped, one sign is read, then the longest
  run of digits; no digit gives NaN, which is \<open>None\<close>. The result is the exact integer,
  as it is for the strings of at most two characters that \<open>computeStage\<close> passes.
\<close>

definition parseInt10 :: "string \<Rightarrow> int option" where
  "parseInt10 s =
     (let t = trimStart s;
          neg = (t \<noteq> [] \<and> hd t = CHR ''-'');
          u = (if t \<noteq> [] \<and> (hd t = CHR ''-'' \<or> hd t = CHR ''+'') then tl t else t);
          ds = takeWhile isDigit u
      in if ds = [] then None
         else Some (if neg then - int (digitsVal ds) else int (digitsVal ds)))"

section \<open>School stages (utils/schools.ts)\<close>

text \<open>
  \<open>normalize\<close> of \<open>computeStage\<close>: \<open>(value || "").toUpperCase()\<close>. A falsy value gives
  the empty string; a truthy value that is no string has no \<open>toUpperCase\<close> and the call
  raises a TypeError.
\<close>

definition normalize :: "jsval option \<Rightarrow> error + string" where
  "normalize v =
     (case v of
        None \<Rightarrow> Inr []
      | Some x \<Rightarrow>
          if truthy x
          then (case x of VStr s \<Rightarrow> Inr (toUpperCase s) | _ \<Rightarrow> Inl TypeError)
          else Inr [])"

definition toInt :: "string \<Rightarrow> int option" where
  "toInt v =
     (if startsWith v ''Y'' \<and> 3 \<le> length v
      then parseInt10 (take 2 (drop 1 v))
      else None)"

definition kinderCodes :: "string list" where
  "kinderCodes = [''KIN'', ''PP'', ''P'']"

definition stageLabel :: "bool \<Rightarrow> bool \<Rightarrow> string" where
  "stageLabel hasPrimary hasSecondary =
     (if hasPrimary \<and> hasSecondary then ''combined''
      else if hasPrimary then ''primary''
      else if hasSecondary then ''secondary''
      else ''other'')"

definition computeStage :: "jsval option \<Rightarrow> jsval option \<Rightarrow> error + string" where
  "computeStage lowYear highYear =
     (case normalize lowYear of
        Inl e \<Rightarrow> Inl e
      | Inr low \<Rightarrow>
         (case normalize highYear of
            Inl e \<Rightarrow> Inl e
          | Inr high \<Rightarrow>
             (let lowNum = toInt low;
                  highNum = toInt high;
                  hasPrimary0 = (low \<in> set kinderCodes \<or> high \<in> set kinderCodes);
                  hasPrimary1 = (case lowNum of None \<Rightarrow> hasPrimary0 | Some n \<Rightarrow> hasPrimary0 \<or> n \<le> 6);
                  hasSecondary1 = (case lowNum of None \<Rightarrow> False | Some n \<Rightarrow> 7 \<le> n);
                  hasPrimary2 = (case highNum of None \<Rightarrow> hasPrimary1 | Some n \<Rightarrow> hasPrimary1 \<or> n \<le> 6);
                  hasSecondary2 = (case highNum of None \<Rightarrow> hasSecondary1 | Some n \<Rightarrow> hasSecondary1 \<or> 7 \<le> n)
              in Inr (stageLabel hasPrimary2 hasSecondary2))))"

section \<open>Numbers\<close>

text \<open>
  The Number value for a real: the nearest double, ties to the even significand,
  an infinity from \<open>2 ^ 1024\<close> on, subnormal steps of \<open>2 ^ - 1074\<close> near zero.
  \<open>bitLength n\<close> is the number of binary digits of a positive integer.
\<close>

definition pow2 :: "int \<Rightarrow> real" where
  "pow2 k = (if 0 \<le> k then 2 ^ nat k else 1 / 2 ^ nat (- k))"

function bitLength :: "int \<Rightarrow> int" where
  "bitLength n = (if n \<le> 0 then 0 else 1 + bitLength (n div 2))"
  by pat_completeness auto
termination
proof (relation "measure nat")
  show "wf (measure nat)" by simp
next
  fix n :: int
  assume "\<not> n \<le> 0"
  then have "n div 2 < n" by linarith
  with \<open>\<not> n \<le> 0\<close> show "(n div 2, n) \<in> measure nat" by simp
qed

declare bitLength.simps [simp del]

text \<open>\<open>ilog2 a\<close> is the integer \<open>e\<close> with \<open>2 ^ e \<le> a < 2 ^ (e + 1)\<close>, for \<open>0 < a\<close>.\<close>

definition ilog2 :: "real \<Rightarrow> int" where
  "ilog2 a =
     (if 1 \<le> a then bitLength \<lfloor>a\<rfloor> - 1
      else - bitLength (\<lceil>1 / a\<rceil> - 1))"

definition roundHalfEven :: "real \<Rightarrow> int" where
  "roundHalfEven q =
     (let n = \<lfloor>q\<rfloor>; r = q - of_int n
      in if r < 1 / 2 then n
         else if 1 / 2 < r then n + 1
         else if even n then n else n + 1)"

definition toDouble :: "real \<Rightarrow> jsnum" where
  "toDouble q =
     (if q = 0 then Fin 0
      else
        let a = \<bar>q\<bar>;
            e = max (ilog2 a) (- 1022);
            u = pow2 (e - 52);
            r = of_int (roundHalfEven (a / u)) * u
        in if pow2 1024 \<le> r then (if q < 0 then NegInf else PosInf)
           else Fin (if q < 0 then - r else r))"

text \<open>\<open>Math.min\<close> and \<open>Math.max\<close> of two numbers.\<close>

fun mathMin :: "jsnum \<Rightarrow> jsnum \<Rightarrow> jsnum" where
  "mathMin NaN y = NaN"
| "mathMin x NaN = NaN"
| "mathMin NegInf y = NegInf"
| "mathMin x NegInf = NegInf"
| "mathMin PosInf y = y"
| "mathMin x PosInf = x"
| "mathMin (Fin a) (Fin b) = Fin (min a b)"

fun mathMax :: "jsnum \<Rightarrow> jsnum \<Rightarrow> jsnum" where
  "mathMax NaN y = NaN"
| "mathMax x NaN = NaN"
| "mathMax PosInf y = PosInf"
| "mathMax x PosInf = PosInf"
| "mathMax NegInf y = y"
| "mathMax x NegInf = x"
| "mathMax (Fin a) (Fin b) = Fin (max a b)"

text \<open>
  \<open>Math.min(...values)\<close> and \<open>Math.max(...values)\<close>: the fold from the neutral
  infinity (the limit that an engine puts on the number of arguments is left out).
\<close>

definition mathMinList :: "jsnum list \<Rightarrow> jsnum" where
  "mathMinList vs = foldl mathMin PosInf vs"

definition mathMaxList :: "jsnum list \<Rightarrow> jsnum" where
  "mathMaxList vs = foldl mathMax NegInf vs"

text \<open>
  StringToNumber, which \<open>Number(s)\<close> applies to a string: white space around the literal
  is skipped and the empty literal is 0; \<open>0x\<close>, \<open>0o\<close> and \<open>0b\<close> literals carry no sign;
  a decimal literal is an optional sign, then \<open>Infinity\<close> or digits with an optional
  fraction and exponent; anything else is NaN.
\<close>

definition hexVal :: "char \<Rightarrow> nat option" where
  "hexVal c =
     (let n = of_char c :: nat
      in if 48 \<le> n \<and> n \<le> 57 then Some (n - 48)
         else if 97 \<le> n \<and> n \<le> 102 then Some (n - 87)
         else if 65 \<le> n \<and> n \<le> 70 then Some (n - 55)
         else None)"

definition radixDigits :: "nat \<Rightarrow> string \<Rightarrow> nat option" where
  "radixDigits b ds =
     (if ds \<noteq> [] \<and> list_all (\<lambda>c. case hexVal c of None \<Rightarrow> False | Some d \<Rightarrow> d < b) ds
      then Some (foldl (\<lambda>acc c. b * acc + (case hexVal c of None \<Rightarrow> 0 | Some d \<Rightarrow> d)) 0 ds)
      else None)"

definition nonDecimalLiteral :: "string \<Rightarrow> nat option" where
  "nonDecimalLiteral t =
     (if startsWith t ''0x'' \<or> startsWith t ''0X'' then radixDigits 16 (drop 2 t)
      else if startsWith t ''0o'' \<or> startsWith t ''0O'' then radixDigits 8 (drop 2 t)
      else if startsWith t ''0b'' \<or> startsWith t ''0B'' then radixDigits 2 (drop 2 t)
      else None)"

text \<open>The exponent part: \<open>e\<close> or \<open>E\<close>, an optional sign, at least one digit, nothing after.\<close>

definition exponentPart :: "string \<Rightarrow> int option" where
  "exponentPart x =
     (if x = [] then Some 0
      else if hd x = CHR ''e'' \<or> hd x = CHR ''E'' then
        (let y = tl x;
             neg = (y \<noteq> [] \<and> hd y = CHR ''-'');
             ds = (if y \<noteq> [] \<and> (hd y = CHR ''-'' \<or> hd y = CHR ''+'') then tl y else y)
         in if ds \<noteq> [] \<and> list_all isDigit ds
            then Some (if neg then - int (digitsVal ds) else int (digitsVal ds))
            else None)
      else None)"

definition pow10 :: "int \<Rightarrow> real" where
  "pow10 k = (if 0 \<le> k then 10 ^ nat k else 1 / 10 ^ nat (- k))"

text \<open>The mathematical value of an unsigned decimal literal, \<open>None\<close> when it is none.\<close>

definition unsignedDecimal :: "string \<Rightarrow> real option" where
  "unsignedDecimal u =
     (let ip = takeWhile isDigit u;
          r1 = dropWhile isDigit u;
          hasDot = (r1 \<noteq> [] \<and> hd r1 = CHR ''.'');
          fp = (if hasDot then takeWhile isDigit (tl r1) else []);
          r2 = (if hasDot then dropWhile isDigit (tl r1) else r1)
      in if ip = [] \<and> fp = [] then None
         else (case exponentPart r2 of
                 None \<Rightarrow> None
               | Some ex \<Rightarrow>
                   Some ((of_nat (digitsVal ip) + of_nat (digitsVal fp) / 10 ^ length fp) * pow10 ex)))"

definition strDecimalLiteral :: "string \<Rightarrow> jsnum" where
  "strDecimalLiteral t =
     (let neg = (t \<noteq> [] \<and> hd t = CHR ''-'');
          u = (if t \<noteq> [] \<and> (hd t = CHR ''-'' \<or> hd t = CHR ''+'') then tl t else t)
      in if u = ''Infinity'' then (if neg then NegInf else PosInf)
         else (case unsignedDecimal u of
                 None \<Rightarrow> NaN
               | Some m \<Rightarrow> toDouble (if neg then - m else m)))"

definition stringToNumber :: "string \<Rightarrow> jsnum" where
  "stringToNumber s =
     (let t = trim s
      in if t = [] then Fin 0
         else (case nonDecimalLiteral t of
                 Some n \<Rightarrow> toDouble (of_nat n)
               | None \<Rightarrow> strDecimalLiteral t))"

text \<open>ToNumber, which \<open>Number(v)\<close> applies to a property read.\<close>

fun toNumber :: "jsval option \<Rightarrow> jsnum" where
  "toNumber None = NaN"
| "toNumber (Some VNull) = Fin 0"
| "toNumber (Some (VBool b)) = (if b then Fin 1 else Fin 0)"
| "toNumber (Some (VNum n)) = n"
| "toNumber (Some (VStr s)) = stringToNumber s"

text \<open>The sum of two numbers, rounded to a double.\<close>

fun jsAdd :: "jsnum \<Rightarrow> jsnum \<Rightarrow> jsnum" where
  "jsAdd NaN y = NaN"
| "jsAdd x NaN = NaN"
| "jsAdd PosInf NegInf = NaN"
| "jsAdd NegInf PosInf = NaN"
| "jsAdd PosInf y = PosInf"
| "jsAdd NegInf y = NegInf"
| "jsAdd x PosInf = PosInf"
| "jsAdd x NegInf = NegInf"
| "jsAdd (Fin a) (Fin b) = toDouble (a + b)"

text \<open>\<open>x / 2\<close>.\<close>

fun halve :: "jsnum \<Rightarrow> jsnum" where
  "halve (Fin a) = toDouble (a / 2)"
| "halve x = x"

text \<open>
  \<open>Number(x.toFixed(6))\<close>: \<open>toFixed\<close> rounds the magnitude to the nearest multiple of
  \<open>10 ^ - 6\<close>, the larger one at a tie, and prints it; from \<open>10 ^ 21\<close> on, and for a value
  that is not finite, it prints the number itself, which reads back unchanged.
\<close>

fun toFixed6 :: "jsnum \<Rightarrow> jsnum" where
  "toFixed6 (Fin x) =
     (if \<bar>x\<bar> < 10 ^ 21
      then toDouble ((if x < 0 then - 1 else 1) * of_int \<lfloor>\<bar>x\<bar> * 10 ^ 6 + 1 / 2\<rfloor> / 10 ^ 6)
      else Fin x)"
| "toFixed6 x = x"

text \<open>
  \<open>String(v)\<close>. The decimal text of a number is the platform's \<open>Number::toString\<close>,
  taken as the parameter \<open>numberToString\<close>.
\<close>

fun toString :: "(jsnum \<Rightarrow> string) \<Rightarrow> jsval \<Rightarrow> string" where
  "toString numberToString VNull = ''null''"
| "toString numberToString (VBool b) = (if b then ''true'' else ''false'')"
| "toString numberToString (VNum n) = numberToString n"
| "toString numberToString (VStr s) = s"

text \<open>
  The members a plain object inherits from \<open>Object.prototype\<close> in a browser: a read of
  such a key on an object that has no own property of that name finds the inherited
  member, not \<open>undefined\<close>. All are functions but \<open>__proto__\<close>, an accessor whose
  setter ignores a value that is no object.
\<close>

definition objectProtoMethods :: "string list" where
  "objectProtoMethods =
     [''constructor'', ''hasOwnProperty'', ''isPrototypeOf'', ''propertyIsEnumerable'',
      ''toLocaleString'', ''toString'', ''valueOf'', ''__defineGetter__'',
      ''__defineSetter__'', ''__lookupGetter__'', ''__lookupSetter__'']"

definition inheritedKey :: "string \<Rightarrow> bool" where
  "inheritedKey k = (k = ''__proto__'' \<or> k \<in> set objectProtoMethods)"

text \<open>
  The text of an inherited method, which \<open>+\<close> concatenates: \<open>constructor\<close> is the
  function \<open>Object\<close>, every other method is named as its key (the layout is the one
  V8 prints).
\<close>

definition nativeSource :: "string \<Rightarrow> string" where
  "nativeSource k =
     ''function '' @ (if k = ''constructor'' then ''Object'' else k) @ ''() { [native code] }''"

text \<open>\<open>v + 1\<close> for the value of a property read.\<close>

fun addOne :: "jsval option \<Rightarrow> jsval" where
  "addOne None = VNum NaN"
| "addOne (Some VNull) = VNum (Fin 1)"
| "addOne (Some (VBool b)) = VNum (if b then Fin 2 else Fin 1)"
| "addOne (Some (VNum n)) = VNum (jsAdd n (Fin 1))"
| "addOne (Some (VStr s)) = VStr (s @ ''1'')"

section \<open>Features and collections (types.ts)\<close>

text \<open>
  A position is the array of numbers of a coordinate; a read past its end gives
  \<open>undefined\<close>. A geometry is one of the seven GeoJSON variants; \<open>OtherGeometry\<close> is
  an object whose \<open>type\<close> is none of them. The properties of a feature are its own
  properties in enumeration order (the keys of a parsed object are distinct), and may
  be null. None of the keys the code reads by name is inherited from
  \<open>Object.prototype\<close>, so a read of a key that is not in the list is \<open>undefined\<close>.
\<close>

type_synonym position = "jsnum list"

datatype geometry =
    Point position
  | MultiPoint "position list"
  | LineString "position list"
  | MultiLineString "position list list"
  | Polygon "position list list"
  | MultiPolygon "position list list list"
  | GeometryCollection "geometry list"
  | OtherGeometry

type_synonym props = "(string \<times> jsval) list"

record feature =
  geometry :: "geometry option"
  properties :: "props option"

record collection =
  features :: "feature list"

text \<open>\<open>(feature.properties || {})[key]\<close>.\<close>

definition getProp :: "feature \<Rightarrow> string \<Rightarrow> jsval option" where
  "getProp f k = (case properties f of None \<Rightarrow> None | Some ps \<Rightarrow> map_of ps k)"

text \<open>\<open>v != null\<close>: neither null nor undefined.\<close>

fun notNullish :: "jsval option \<Rightarrow> bool" where
  "notNullish None = False"
| "notNullish (Some VNull) = False"
| "notNullish (Some v) = True"

section \<open>Bounds (utils/geojson.ts)\<close>

text \<open>
  \<open>flattenCoords\<close> pushes onto \<open>points\<close>; the model returns what one call appends. A
  Point pushes \<open>[lon, lat]\<close>, its first two coordinates: an array that ends in
  \<open>undefined\<close> entries reads like the shorter array, which is what \<open>take 2\<close> keeps.
\<close>

fun flattenCoords :: "geometry \<Rightarrow> position list" where
  "flattenCoords (Point c) = [take 2 c]"
| "flattenCoords (MultiPoint cs) = cs"
| "flattenCoords (LineString cs) = cs"
| "flattenCoords (MultiLineString rings) = concat rings"
| "flattenCoords (Polygon rings) = concat rings"
| "flattenCoords (MultiPolygon polys) = concat (map concat polys)"
| "flattenCoords (GeometryCollection gs) = concat (map flattenCoords gs)"
| "flattenCoords OtherGeometry = []"

definition featurePoints :: "feature \<Rightarrow> position list" where
  "featurePoints f = (case geometry f of None \<Rightarrow> [] | Some g \<Rightarrow> flattenCoords g)"

text \<open>
  The destructuring \<open>[lon, lat]\<close> of a point: a coordinate that the array does not
  have is \<open>undefined\<close>, which \<open>Number.isFinite\<close> rejects.
\<close>

definition coordAt :: "position \<Rightarrow> nat \<Rightarrow> jsnum option" where
  "coordAt p i = (if i < length p then Some (p ! i) else None)"

type_synonym bbox = "jsnum \<times> jsnum \<times> jsnum \<times> jsnum"

definition extendBounds :: "bbox \<Rightarrow> position \<Rightarrow> bbox" where
  "extendBounds b p =
     (case b of (minLon, minLat, maxLon, maxLat) \<Rightarrow>
        (case (coordAt p 0, coordAt p 1) of
           (Some lon, Some lat) \<Rightarrow>
             if isFinite lon \<and> isFinite lat
             then (mathMin minLon lon, mathMin minLat lat, mathMax maxLon lon, mathMax maxLat lat)
             else b
         | _ \<Rightarrow> b))"

definition computeBounds :: "feature list \<Rightarrow> bbox option" where
  "computeBounds fs =
     (let points = concat (map featurePoints fs)
      in if points = [] then None
         else
           (case foldl extendBounds (PosInf, PosInf, NegInf, NegInf) points of
              (minLon, minLat, maxLon, maxLat) \<Rightarrow>
                if \<not> (isFinite minLon \<and> isFinite minLat \<and> isFinite maxLon \<and> isFinite maxLat)
                then None
                else Some (minLon, minLat, maxLon, maxLat)))"

section \<open>Metadata (utils/geojson.ts)\<close>

record map_metadata =
  states :: "string list"
  sa2ByState :: "string \<rightharpoonup> jsval list"
  totalBounds :: "bbox option"
  stateCenters :: "string \<rightharpoonup> jsnum \<times> jsnum"
  propertyNames :: "string list"
  count :: nat
  iradRange :: "(jsnum \<times> jsnum) option"
  seifaColumns :: "string list"

text \<open>\<open>Set.add\<close> on a set kept in insertion order.\<close>

definition setAdd :: "'a list \<Rightarrow> 'a \<Rightarrow> 'a list" where
  "setAdd xs x = (if x \<in> set xs then xs else xs @ [x])"

text \<open>
  What the first loop of \<open>buildMetadata\<close> accumulates: \<open>propertyNames\<close>, the own
  properties of \<open>sa2ByState\<close> in creation order, and \<open>iradValues\<close>.
\<close>

record scan =
  names :: "string list"
  groups :: "(string \<times> jsval list) list"
  irad :: "jsnum list"

text \<open>
  The two statements on \<open>sa2ByState[state]\<close>, for a truthy \<open>state\<close> that is turned into
  the property key \<open>k\<close>. When \<open>k\<close> is inherited from \<open>Object.prototype\<close> no set is
  created, and \<open>add\<close> is then called on a member that has none: a TypeError.
\<close>

definition groupState :: "string \<Rightarrow> jsval option \<Rightarrow> (string \<times> jsval list) list \<Rightarrow> error + (string \<times> jsval list) list" where
  "groupState k sa2 gs =
     (case map_of gs k of
        Some vs \<Rightarrow>
          Inr (case sa2 of
                 None \<Rightarrow> gs
               | Some v \<Rightarrow> if truthy v then AList.update k (setAdd vs v) gs else gs)
      | None \<Rightarrow>
          if inheritedKey k then (if truthyOpt sa2 then Inl TypeError else Inr gs)
          else Inr (gs @ [(k, case sa2 of
                                None \<Rightarrow> []
                              | Some v \<Rightarrow> if truthy v then [v] else [])]))"

definition scanFeature :: "(jsnum \<Rightarrow> string) \<Rightarrow> scan \<Rightarrow> feature \<Rightarrow> error + scan" where
  "scanFeature numberToString s f =
     (let ps = (case properties f of None \<Rightarrow> [] | Some p \<Rightarrow> p);
          names' = foldl setAdd (names s) (map fst ps);
          state = getProp f ''STE_NAME21'';
          sa2 = getProp f ''SA2_NAME21'';
          decile = toNumber (getProp f ''IRAD_decile'');
          irad' = (if \<not> isNaN decile then irad s @ [decile] else irad s)
      in case (case state of
                 None \<Rightarrow> Inr (groups s)
               | Some v \<Rightarrow>
                   if truthy v then groupState (toString numberToString v) sa2 (groups s)
                   else Inr (groups s)) of
           Inl e \<Rightarrow> Inl e
         | Inr gs \<Rightarrow> Inr \<lparr>names = names', groups = gs, irad = irad'\<rparr>)"

fun foldE :: "('s \<Rightarrow> 'a \<Rightarrow> error + 's) \<Rightarrow> 's \<Rightarrow> 'a list \<Rightarrow> error + 's" where
  "foldE step s [] = Inr s"
| "foldE step s (x # xs) = (case step s x of Inl e \<Rightarrow> Inl e | Inr s' \<Rightarrow> foldE step s' xs)"

text \<open>
  The centre of a state: \<open>[lat, lon]\<close> of the middle of the bounds of the features
  whose \<open>STE_NAME21\<close> is strictly equal to the key, when they have bounds.
\<close>

definition centerOf :: "bbox \<Rightarrow> jsnum \<times> jsnum" where
  "centerOf b =
     (case b of (minLon, minLat, maxLon, maxLat) \<Rightarrow>
        (toFixed6 (halve (jsAdd minLat maxLat)), toFixed6 (halve (jsAdd minLon maxLon))))"

definition stateSubset :: "feature list \<Rightarrow> string \<Rightarrow> feature list" where
  "stateSubset fs state = filter (\<lambda>f. getProp f ''STE_NAME21'' = Some (VStr state)) fs"

definition stateCenterEntries :: "feature list \<Rightarrow> string list \<Rightarrow> (string \<times> jsnum \<times> jsnum) list" where
  "stateCenterEntries fs ks =
     List.map_filter
       (\<lambda>k. case computeBounds (stateSubset fs k) of
               None \<Rightarrow> None
             | Some b \<Rightarrow> Some (k, centerOf b)) ks"

definition seifaPrefixes :: "string list" where
  "seifaPrefixes = [''IRSD_'', ''IRAD_'', ''IER_'', ''IEO_'']"

definition isSeifaColumn :: "string \<Rightarrow> bool" where
  "isSeifaColumn name = (list_ex (\<lambda>prefix. startsWith name prefix) seifaPrefixes \<or> name = ''URP'')"

text \<open>
  The default \<open>sort()\<close>: by the strings of the elements, compared code unit by code
  unit, elements of equal string in their former order.
\<close>

definition sortDefault :: "(jsnum \<Rightarrow> string) \<Rightarrow> jsval list \<Rightarrow> jsval list" where
  "sortDefault numberToString vs = sort_key (toString numberToString) vs"

definition buildMetadata :: "(jsnum \<Rightarrow> string) \<Rightarrow> collection \<Rightarrow> error + map_metadata" where
  "buildMetadata numberToString data =
     (case foldE (scanFeature numberToString) \<lparr>names = [], groups = [], irad = []\<rparr> (features data) of
        Inl e \<Rightarrow> Inl e
      | Inr s \<Rightarrow>
          Inr \<lparr>states = sort (map fst (groups s)),
               sa2ByState = map_of (map (\<lambda>(k, vs). (k, sortDefault numberToString vs)) (groups s)),
               totalBounds = computeBounds (features data),
               stateCenters = map_of (stateCenterEntries (features data) (map fst (groups s))),
               propertyNames = names s,
               count = length (features data),
               iradRange = (if irad s \<noteq> [] then Some (mathMinList (irad s), mathMaxList (irad s)) else None),
               seifaColumns = filter isSeifaColumn (names s)\<rparr>)"

section \<open>Schools (utils/schools.ts)\<close>

fun mapE :: "('a \<Rightarrow> error + 'b) \<Rightarrow> 'a list \<Rightarrow> error + 'b list" where
  "mapE g [] = Inr []"
| "mapE g (x # xs) =
     (case g x of
        Inl e \<Rightarrow> Inl e
      | Inr y \<Rightarrow> (case mapE g xs of Inl e \<Rightarrow> Inl e | Inr ys \<Rightarrow> Inr (y # ys)))"

text \<open>
  The callback of \<open>ensureSchoolStages\<close>: null properties become the empty object; a
  falsy \<open>stage\<close> (absent, null, empty, zero, false, NaN) is replaced by the computed
  one, written in place when the key exists and added last when it does not.
\<close>

definition ensureFeatureStage :: "feature \<Rightarrow> error + feature" where
  "ensureFeatureStage f =
     (let ps = (case properties f of None \<Rightarrow> [] | Some p \<Rightarrow> p)
      in if \<not> truthyOpt (map_of ps ''stage'')
         then (case computeStage (map_of ps ''lowyear'') (map_of ps ''highyear'') of
                 Inl e \<Rightarrow> Inl e
               | Inr st \<Rightarrow> Inr (f\<lparr>properties := Some (AList.update ''stage'' (VStr st) ps)\<rparr>))
         else Inr (f\<lparr>properties := Some ps\<rparr>))"

definition ensureSchoolStages :: "collection option \<Rightarrow> error + collection option" where
  "ensureSchoolStages c =
     (case c of
        None \<Rightarrow> Inr None
      | Some col \<Rightarrow>
          (case mapE ensureFeatureStage (features col) of
             Inl e \<Rightarrow> Inl e
           | Inr mutated \<Rightarrow> Inr (Some (col\<lparr>features := mutated\<rparr>))))"

text \<open>
  The three histograms are plain objects keyed by strings of the data. Their values
  are what \<open>+ 1\<close> leaves there: counts, or text when the key is inherited.
\<close>

record schools_summary =
  schoolsCount :: nat
  sectorCounts :: "string \<rightharpoonup> jsval"
  remoteCounts :: "string \<rightharpoonup> jsval"
  stageCounts :: "string \<rightharpoonup> jsval"

text \<open>
  \<open>counts[k] = (counts[k] || 0) + 1\<close>. The map holds the own properties. A key that
  is not own but inherited reads as the inherited member: a method is truthy and \<open>+\<close>
  appends to its text, which becomes an own property; \<open>__proto__\<close> reads as an
  object, and the string that \<open>+\<close> makes of it is assigned through the inherited
  setter, which ignores a value that is no object.
\<close>

definition bumpCount :: "(string \<rightharpoonup> jsval) \<Rightarrow> string \<Rightarrow> (string \<rightharpoonup> jsval)" where
  "bumpCount m k =
     (case m k of
        Some v \<Rightarrow> m(k \<mapsto> (if truthy v then addOne (Some v) else VNum (Fin 1)))
      | None \<Rightarrow>
          if k = ''__proto__'' then m
          else if k \<in> set objectProtoMethods then m(k \<mapsto> VStr (nativeSource k @ ''1''))
          else m(k \<mapsto> VNum (Fin 1)))"

text \<open>
  \<open>if (stageCounts[stage] !== undefined) stageCounts[stage] += 1; else stageCounts.other += 1\<close>.
  An inherited member is not \<open>undefined\<close> either.
\<close>

definition bumpStage :: "(string \<rightharpoonup> jsval) \<Rightarrow> string \<Rightarrow> (string \<rightharpoonup> jsval)" where
  "bumpStage m k =
     (case m k of
        Some v \<Rightarrow> m(k \<mapsto> addOne (Some v))
      | None \<Rightarrow>
          if k = ''__proto__'' then m
          else if k \<in> set objectProtoMethods then m(k \<mapsto> VStr (nativeSource k @ ''1''))
          else m(''other'' \<mapsto> addOne (m ''other'')))"

text \<open>\<open>String(v || "").trim()\<close> of a property read.\<close>

definition trimmedText :: "(jsnum \<Rightarrow> string) \<Rightarrow> jsval option \<Rightarrow> string" where
  "trimmedText numberToString v =
     (case v of
        None \<Rightarrow> []
      | Some x \<Rightarrow> if truthy x then trim (toString numberToString x) else [])"

text \<open>
  \<open>(props.stage || "other").toLowerCase()\<close>: a truthy stage that is no string has no
  \<open>toLowerCase\<close>, and the call raises a TypeError.
\<close>

definition stageKey :: "jsval option \<Rightarrow> error + string" where
  "stageKey v =
     (case v of
        None \<Rightarrow> Inr ''other''
      | Some x \<Rightarrow>
          if truthy x
          then (case x of VStr s \<Rightarrow> Inr (toLowerCase s) | _ \<Rightarrow> Inl TypeError)
          else Inr ''other'')"

definition initialStageCounts :: "string \<rightharpoonup> jsval" where
  "initialStageCounts =
     [''primary'' \<mapsto> VNum (Fin 0), ''secondary'' \<mapsto> VNum (Fin 0),
      ''combined'' \<mapsto> VNum (Fin 0), ''other'' \<mapsto> VNum (Fin 0)]"

definition countFeature :: "(jsnum \<Rightarrow> string) \<Rightarrow> schools_summary \<Rightarrow> feature \<Rightarrow> error + schools_summary" where
  "countFeature numberToString s f =
     (let sector = trimmedText numberToString (getProp f ''sector'');
          sectors = (if sector \<noteq> [] then bumpCount (sectorCounts s) sector else sectorCounts s);
          remote = trimmedText numberToString (getProp f ''remotearea'');
          remotes = (if remote \<noteq> [] then bumpCount (remoteCounts s) remote else remoteCounts s)
      in case stageKey (getProp f ''stage'') of
           Inl e \<Rightarrow> Inl e
         | Inr stage \<Rightarrow>
             Inr (s\<lparr>sectorCounts := sectors, remoteCounts := remotes,
                    stageCounts := bumpStage (stageCounts s) stage\<rparr>))"

definition summarizeSchools :: "(jsnum \<Rightarrow> string) \<Rightarrow> collection option \<Rightarrow> error + schools_summary option" where
  "summarizeSchools numberToString c =
     (case c of
        None \<Rightarrow> Inr None
      | Some col \<Rightarrow>
          if features col = [] then Inr None
          else
            (case foldE (countFeature numberToString)
                    \<lparr>schoolsCount = length (features col), sectorCounts = Map.empty,
                     remoteCounts = Map.empty, stageCounts = initialStageCounts\<rparr>
                    (features col) of
               Inl e \<Rightarrow> Inl e
             | Inr s \<Rightarrow> Inr (Some s)))"

text \<open>\<open>value.replace(/%/g, "")\<close>: every percent sign is removed.\<close>

definition stripPercent :: "string \<Rightarrow> string" where
  "stripPercent s = filter (\<lambda>c. c \<noteq> CHR ''%'') s"

definition parsePercentile :: "jsval option \<Rightarrow> jsnum option" where
  "parsePercentile v =
     (case v of
        None \<Rightarrow> None
      | Some VNull \<Rightarrow> None
      | Some (VNum n) \<Rightarrow> if isFinite n then Some n else None
      | Some (VStr s) \<Rightarrow>
          (let cleaned = trim (stripPercent s)
           in if cleaned = [] then None
              else (let parsed = stringToNumber cleaned
                    in if isFinite parsed then Some parsed else None))
      | Some (VBool b) \<Rightarrow> None)"

section \<open>Loading (utils/loaders.ts)\<close>

text \<open>
  What a request for a path meets: \<open>fetch\<close> rejects, the response is not \<open>ok\<close> (with
  its status text), the body is no JSON, or the body parses to a value. \<open>fetchJson\<close>
  answers null to the first three (it also writes to the console, which the model
  leaves out).
\<close>

datatype 'a response = Rejected | NotOk string | NotJson | Json 'a

definition fetchJson :: "(string \<Rightarrow> 'a response) \<Rightarrow> string \<Rightarrow> 'a option" where
  "fetchJson net path =
     (case net path of
        Rejected \<Rightarrow> None
      | NotOk statusText \<Rightarrow> None
      | NotJson \<Rightarrow> None
      | Json body \<Rightarrow> Some body)"

definition SA1_FILE :: string where "SA1_FILE = ''/sa1_2021.geojson''"
definition SCHOOLS_FILE :: string where "SCHOOLS_FILE = ''/schools_2019.geojson''"
definition CATCHMENTS_FILE :: string where "CATCHMENTS_FILE = ''/school_catchments.geojson''"
definition TRANSIT_FILE :: string where "TRANSIT_FILE = ''/transit_services.geojson''"
definition ARCGIS_MANIFEST :: string where "ARCGIS_MANIFEST = ''/arcgis_layers/index.json''"

record transit_layers =
  train :: "collection option"
  bus :: "collection option"
  other :: "collection option"
  all :: "collection option"

definition routeTypeKeys :: "string list" where
  "routeTypeKeys = [''ROUTETYPE'', ''RouteType'', ''route_type'']"

text \<open>The first of the three keys whose value is neither null nor undefined decides.\<close>

fun firstRouteType :: "(jsnum \<Rightarrow> string) \<Rightarrow> feature \<Rightarrow> string list \<Rightarrow> string" where
  "firstRouteType numberToString f [] = []"
| "firstRouteType numberToString f (key # keys) =
     (case getProp f key of
        None \<Rightarrow> firstRouteType numberToString f keys
      | Some VNull \<Rightarrow> firstRouteType numberToString f keys
      | Some v \<Rightarrow> toLowerCase (trim (toString numberToString v)))"

definition routeType :: "(jsnum \<Rightarrow> string) \<Rightarrow> feature \<Rightarrow> string" where
  "routeType numberToString f = firstRouteType numberToString f routeTypeKeys"

definition makeCollection :: "collection \<Rightarrow> (feature \<Rightarrow> bool) \<Rightarrow> collection" where
  "makeCollection data predicate = \<lparr>features = filter predicate (features data)\<rparr>"

definition groupTransitLayers :: "(jsnum \<Rightarrow> string) \<Rightarrow> collection option \<Rightarrow> transit_layers" where
  "groupTransitLayers numberToString d =
     (case d of
        None \<Rightarrow> \<lparr>train = None, bus = None, other = None, all = None\<rparr>
      | Some data \<Rightarrow>
          if features data = [] then \<lparr>train = None, bus = None, other = None, all = None\<rparr>
          else
            (let trainC = makeCollection data (\<lambda>f. routeType numberToString f = ''train'');
                 busC = makeCollection data
                          (\<lambda>f. routeType numberToString f \<in> set [''standard'', ''cat'', ''school'']);
                 otherC = makeCollection data
                          (\<lambda>f. routeType numberToString f \<notin> set [''train'', ''standard'', ''cat'', ''school'']);
                 layerTrain = (if features trainC \<noteq> [] then Some trainC else None);
                 layerBus = (if features busC \<noteq> [] then Some busC else None);
                 layerOther = (if features otherC \<noteq> [] then Some otherC else None)
             in \<lparr>train = layerTrain, bus = layerBus, other = layerOther,
                 all = (if layerTrain = None \<and> layerBus = None \<and> layerOther = None
                        then Some data else None)\<rparr>))"

record catchments_summary =
  catchmentsCount :: nat
  levels :: "string \<rightharpoonup> nat"

record catchments_result =
  layers :: "string \<rightharpoonup> collection"
  summary :: "catchments_summary option"
  warning :: "string option"

text \<open>\<open>collect(level)\<close>: the features whose \<open>catchment_level\<close> is strictly equal to the level.\<close>

definition collect :: "collection \<Rightarrow> string \<Rightarrow> (string \<rightharpoonup> collection) \<Rightarrow> (string \<rightharpoonup> collection)" where
  "collect data level ls =
     (let fs = filter (\<lambda>f. getProp f ''catchment_level'' = Some (VStr level)) (features data)
      in if fs \<noteq> [] then ls(level \<mapsto> \<lparr>features = fs\<rparr>) else ls)"

definition summarizeCatchments :: "collection option \<Rightarrow> catchments_result" where
  "summarizeCatchments d =
     (case d of
        None \<Rightarrow> \<lparr>layers = Map.empty, summary = None,
                  warning = Some ''Catchment GeoJSON not found or empty.''\<rparr>
      | Some data \<Rightarrow>
          if features data = []
          then \<lparr>layers = Map.empty, summary = None,
                warning = Some ''Catchment GeoJSON not found or empty.''\<rparr>
          else
            (let ls = collect data ''other'' (collect data ''high'' (collect data ''primary'' Map.empty))
             in \<lparr>layers = ls,
                 summary = Some \<lparr>catchmentsCount = length (features data),
                                 levels = (\<lambda>level. map_option (\<lambda>layer. length (features layer)) (ls level))\<rparr>,
                 warning = None\<rparr>))"

record arcgis_manifest =
  manifestLayers :: "(string \<times> string) list"

definition loadArcgisManifest :: "(string \<Rightarrow> arcgis_manifest response) \<Rightarrow> arcgis_manifest" where
  "loadArcgisManifest net =
     (case fetchJson net ARCGIS_MANIFEST of
        None \<Rightarrow> \<lparr>manifestLayers = []\<rparr>
      | Some manifest \<Rightarrow> manifest)"

record map_data =
  sa1 :: collection
  metadata :: map_metadata
  transit :: transit_layers
  schools :: "collection option"
  schoolsSummary :: "schools_summary option"
  catchments :: "string \<rightharpoonup> collection"
  catchmentsSummary :: "catchments_summary option"
  catchmentsWarning :: "string option"
  transitWarning :: "string option"
  schoolsWarning :: "string option"
  rankingWarning :: "string option"
  seifaWarning :: "string option"
  arcgisManifest :: arcgis_manifest

text \<open>The two kinds of file that the server holds.\<close>

record assets =
  geojson :: "string \<Rightarrow> collection response"
  manifest :: "string \<Rightarrow> arcgis_manifest response"

definition hasRanking :: "feature \<Rightarrow> bool" where
  "hasRanking f =
     (case properties f of
        None \<Rightarrow> False
      | Some ps \<Rightarrow> notNullish (map_of ps ''ranking_rank''))"

definition rankingMessage :: string where
  "rankingMessage =
     ''Ranking attributes missing from processed schools GeoJSON. Re-run scripts/prep_geojson.py --schools with the ranking XML.''"

definition sa1Required :: string where
  "sa1Required = ''SA1 dataset is required. Ensure assets are generated under /assets.''"

definition loadMapData :: "(jsnum \<Rightarrow> string) \<Rightarrow> assets \<Rightarrow> error + map_data" where
  "loadMapData numberToString srv =
     (let sa1Source = fetchJson (geojson srv) SA1_FILE;
          transitSource = fetchJson (geojson srv) TRANSIT_FILE;
          schoolsSource = fetchJson (geojson srv) SCHOOLS_FILE;
          catchmentsSource = fetchJson (geojson srv) CATCHMENTS_FILE;
          manifestFile = loadArcgisManifest (manifest srv)
      in case sa1Source of
           None \<Rightarrow> Inl (LoadError sa1Required)
         | Some sa1Data \<Rightarrow>
            (case buildMetadata numberToString sa1Data of
               Inl e \<Rightarrow> Inl e
             | Inr meta \<Rightarrow>
                (case ensureSchoolStages schoolsSource of
                   Inl e \<Rightarrow> Inl e
                 | Inr stagedSchools \<Rightarrow>
                    (case summarizeSchools numberToString stagedSchools of
                       Inl e \<Rightarrow> Inl e
                     | Inr summ \<Rightarrow>
                        (let cr = summarizeCatchments catchmentsSource
                         in Inr \<lparr>sa1 = sa1Data,
                                 metadata = meta,
                                 transit = groupTransitLayers numberToString transitSource,
                                 schools = stagedSchools,
                                 schoolsSummary = summ,
                                 catchments = layers cr,
                                 catchmentsSummary = summary cr,
                                 catchmentsWarning = warning cr,
                                 transitWarning =
                                   (case transitSource of
                                      Some t \<Rightarrow> None
                                    | None \<Rightarrow> Some ''Transit GeoJSON missing from assets.''),
                                 schoolsWarning =
                                   (case stagedSchools of
                                      Some s \<Rightarrow> None
                                    | None \<Rightarrow> Some ''Schools GeoJSON missing from assets.''),
                                 rankingWarning =
                                   (case stagedSchools of
                                      None \<Rightarrow> None
                                    | Some s \<Rightarrow>
                                        if features s \<noteq> [] \<and> \<not> list_ex hasRanking (features s)
                                        then Some rankingMessage else None),
                                 seifaWarning =
                                   (if seifaColumns meta \<noteq> [] then None
                                    else Some ''SEIFA fields missing from SA1 GeoJSON.''),
                                 arcgisManifest = manifestFile\<rparr>)))))"

section \<open>Notions the properties are stated with\<close>






text \<open>The features of a feed whose \<open>catchment_level\<close> is the given string.\<close>

definition levelFeatures :: "collection option \<Rightarrow> string \<Rightarrow> feature list" where
  "levelFeatures d level =
     (case d of
        None \<Rightarrow> []
      | Some data \<Rightarrow> filter (\<lambda>f. getProp f ''catchment_level'' = Some (VStr level)) (features data))"

text \<open>
  The cleaning of a percentage as the specification words it: surrounding white space
  and one optional trailing percent sign are stripped.
\<close>

definition stripOptionalPercent :: "string \<Rightarrow> string" where
  "stripOptionalPercent s =
     (let t = trim s
      in trim (if t \<noteq> [] \<and> last t = CHR ''%'' then butlast t else t))"

text \<open>
  The non-blank texts that a property takes in a list of features, as
  \<open>summarizeSchools\<close> reads them.
\<close>

definition occurringTexts :: "(jsnum \<Rightarrow> string) \<Rightarrow> string \<Rightarrow> feature list \<Rightarrow> string set" where
  "occurringTexts numberToString key fs =
     set (filter (\<lambda>t. t \<noteq> []) (map (\<lambda>f. trimmedText numberToString (getProp f key)) fs))"

text \<open>
  The finite coordinate pair that a point holds, if it holds one, and the finite pairs
  of a list of features in traversal order.
\<close>

definition finitePair :: "position \<Rightarrow> (real \<times> real) option" where
  "finitePair p =
     (case (coordAt p 0, coordAt p 1) of
        (Some (Fin x), Some (Fin y)) \<Rightarrow> Some (x, y)
      | _ \<Rightarrow> None)"

definition finitePoints :: "feature list \<Rightarrow> (real \<times> real) list" where
  "finitePoints fs = List.map_filter finitePair (concat (map featurePoints fs))"

text \<open>
  The box of a list of pairs: the bounds that the loop of \<open>computeBounds\<close> starts
  from when the list is empty, the least and greatest coordinates otherwise.
\<close>

definition envelope :: "(real \<times> real) list \<Rightarrow> bbox" where
  "envelope qs =
     (if qs = [] then (PosInf, PosInf, NegInf, NegInf)
      else (Fin (Min (fst ` set qs)), Fin (Min (snd ` set qs)),
            Fin (Max (fst ` set qs)), Fin (Max (snd ` set qs))))"

text \<open>
  A year code that \<open>computeStage\<close> can read: a string, or a value that is falsy. A
  feature is classifiable when it has a truthy \<open>stage\<close> or both its year codes can
  be read.
\<close>

fun stringOrFalsy :: "jsval option \<Rightarrow> bool" where
  "stringOrFalsy None = True"
| "stringOrFalsy (Some (VStr s)) = True"
| "stringOrFalsy (Some v) = (\<not> truthy v)"

definition classifiable :: "feature \<Rightarrow> bool" where
  "classifiable f =
     (truthyOpt (getProp f ''stage'') \<or>
      (stringOrFalsy (getProp f ''lowyear'') \<and> stringOrFalsy (getProp f ''highyear'')))"

text \<open>
  \<open>stagedAs f g\<close>: \<open>g\<close> is \<open>f\<close> with its stage ensured. The geometry and every property
  but \<open>stage\<close> are those of \<open>f\<close>; \<open>stage\<close> is that of \<open>f\<close> when it is truthy, and
  the string that \<open>computeStage\<close> returns for the year codes of \<open>f\<close> otherwise.
\<close>

definition stagedAs :: "feature \<Rightarrow> feature \<Rightarrow> bool" where
  "stagedAs f g =
     (geometry g = geometry f
      \<and> (\<forall>k. k = ''stage'' \<or> getProp g k = getProp f k)
      \<and> (if truthyOpt (getProp f ''stage'') then getProp g ''stage'' = getProp f ''stage''
          else (case getProp g ''stage'' of
                  Some (VStr st) \<Rightarrow>
                    computeStage (getProp f ''lowyear'') (getProp f ''highyear'') = Inr st
                | _ \<Rightarrow> False)))"

text \<open>
  What holds of the own properties of \<open>sa2ByState\<close> all along the first loop of
  \<open>buildMetadata\<close>: the keys are distinct, and so are the members of each set.
\<close>

definition groupsOk :: "(string \<times> jsval list) list \<Rightarrow> bool" where
  "groupsOk gs = (distinct (map fst gs) \<and> (\<forall>k vs. map_of gs k = Some vs \<longrightarrow> distinct vs))"

text \<open>A small polygon dataset: two states, one of them with two sub-regions.\<close>

definition exampleSa1 :: collection where
  "exampleSa1 =
     \<lparr>features =
        [\<lparr>geometry = None, properties = Some [(''STE_NAME21'', VStr ''WA''), (''SA2_NAME21'', VStr ''Perth'')]\<rparr>,
         \<lparr>geometry = None, properties = Some [(''STE_NAME21'', VStr ''VIC''), (''SA2_NAME21'', VStr ''Carlton'')]\<rparr>,
         \<lparr>geometry = None, properties = Some [(''STE_NAME21'', VStr ''WA''), (''SA2_NAME21'', VStr ''Albany'')]\<rparr>]\<rparr>"

text \<open>
  Servers for the load: one that holds no file at all; one that holds the polygon
  dataset only; one that holds every dataset, each with what the snapshot expects of
  it, but not the manifest; and one whose schools file has a number for \<open>lowyear\<close>.
\<close>

definition srvNothing :: assets where
  "srvNothing = \<lparr>geojson = (\<lambda>path. NotOk ''Not Found''), manifest = (\<lambda>path. NotOk ''Not Found'')\<rparr>"

definition srvOnlySa1 :: assets where
  "srvOnlySa1 =
     \<lparr>geojson = (\<lambda>path. if path = SA1_FILE then Json exampleSa1 else NotOk ''Not Found''),
      manifest = (\<lambda>path. Rejected)\<rparr>"

definition seifaSa1 :: collection where
  "seifaSa1 = \<lparr>features = [\<lparr>geometry = None, properties = Some [(''URP'', VNum (Fin 100))]\<rparr>]\<rparr>"

definition rankedSchools :: collection where
  "rankedSchools =
     \<lparr>features = [\<lparr>geometry = None,
         properties = Some [(''stage'', VStr ''primary''), (''ranking_rank'', VNum (Fin 1))]\<rparr>]\<rparr>"

definition someCatchments :: collection where
  "someCatchments =
     \<lparr>features = [\<lparr>geometry = None, properties = Some [(''catchment_level'', VStr ''primary'')]\<rparr>]\<rparr>"

definition someTransit :: collection where
  "someTransit = \<lparr>features = [\<lparr>geometry = None, properties = Some [(''ROUTETYPE'', VStr ''Train'')]\<rparr>]\<rparr>"

definition srvNoManifest :: assets where
  "srvNoManifest =
     \<lparr>geojson = (\<lambda>path. if path = SA1_FILE then Json seifaSa1
                       else if path = TRANSIT_FILE then Json someTransit
                       else if path = SCHOOLS_FILE then Json rankedSchools
                       else if path = CATCHMENTS_FILE then Json someCatchments
                       else NotOk ''Not Found''),
      manifest = (\<lambda>path. NotOk ''Not Found'')\<rparr>"

definition srvBadYear :: assets where
  "srvBadYear =
     \<lparr>geojson = (\<lambda>path. if path = SA1_FILE then Json \<lparr>features = []\<rparr>
                       else if path = SCHOOLS_FILE
                       then Json \<lparr>features = [\<lparr>geometry = None,
                                    properties = Some [(''lowyear'', VNum (Fin 7))]\<rparr>]\<rparr>
                       else NotOk ''Not Found''),
      manifest = (\<lambda>path. NotOk ''Not Found'')\<rparr>"

text \<open>
  The positions that a geometry holds, by the GeoJSON format itself: the one position
  of a Point, the positions of a MultiPoint or LineString, those of every line or ring
  of a MultiLineString or Polygon, those of every ring of every polygon of a
  MultiPolygon, those of every member of a GeometryCollection, at any depth. It is
  stated on the data, not on the traversal that \<open>flattenCoords\<close> makes.
\<close>

fun geometryPositions :: "geometry \<Rightarrow> position set" where
  "geometryPositions (Point c) = {c}"
| "geometryPositions (MultiPoint cs) = set cs"
| "geometryPositions (LineString cs) = set cs"
| "geometryPositions (MultiLineString ls) = (\<Union>l \<in> set ls. set l)"
| "geometryPositions (Polygon rings) = (\<Union>r \<in> set rings. set r)"
| "geometryPositions (MultiPolygon polys) = (\<Union>poly \<in> set polys. \<Union>r \<in> set poly. set r)"
| "geometryPositions (GeometryCollection gs) = (\<Union>g \<in> set gs. geometryPositions g)"
| "geometryPositions OtherGeometry = {}"

text \<open>The finite coordinate pairs among the positions of the geometries of the features.\<close>

definition finitePairs :: "feature list \<Rightarrow> (real \<times> real) set" where
  "finitePairs fs =
     (\<Union>f \<in> set fs. case geometry f of
                         None \<Rightarrow> {}
                       | Some g \<Rightarrow> Option.these (finitePair ` geometryPositions g))"

text \<open>A server that holds the polygon dataset and the schools, and nothing else.\<close>

definition srvSa1Schools :: assets where
  "srvSa1Schools =
     \<lparr>geojson = (\<lambda>path. if path = SA1_FILE then Json exampleSa1
                       else if path = SCHOOLS_FILE then Json rankedSchools
                       else NotOk ''Not Found''),
      manifest = (\<lambda>path. NotOk ''Not Found'')\<rparr>"

section \<open>Evaluation rules\<close>

lemmas string_eval_defs = trim_def trimStart_def isWhiteSpace_def toUpperCase_def upperChar_def
  toLowerCase_def lowerChar_def startsWith_def isDigit_def digitsVal_def digitVal_def
  char_of_def bit_Suc_0_iff

lemmas stage_eval_defs = computeStage_def normalize_def toInt_def parseInt10_def kinderCodes_def
  stageLabel_def string_eval_defs

lemma bitLength_0: "bitLength 0 = 0"
  by (simp add: bitLength.simps)

lemma bitLength_1: "bitLength 1 = 1"
  by (subst bitLength.simps) (simp add: bitLength_0)

lemma bitLength_numeral: "bitLength (numeral k) = 1 + bitLength (numeral k div 2)"
  by (subst bitLength.simps) simp

lemmas number_eval_defs = toDouble_def ilog2_def bitLength_0 bitLength_1 bitLength_numeral
  roundHalfEven_def pow2_def pow10_def Let_def

lemmas literal_eval_defs = stringToNumber_def nonDecimalLiteral_def strDecimalLiteral_def
  unsignedDecimal_def exponentPart_def pow10_def string_eval_defs

section \<open>computeStage\<close>


text \<open>
  A Y-coded year is the letter Y and two digits, which \<open>toInt\<close> reads as the number
  they write, whatever follows them.
\<close>

lemma toInt_two_digits:
  assumes "isDigit a" and "isDigit b"
  shows "toInt (CHR ''Y'' # a # b # rest) = Some (int (10 * digitVal a + digitVal b))"
proof -
  from assms(1) have a: "\<not> isWhiteSpace a" "a \<noteq> CHR ''-''" "a \<noteq> CHR ''+''"
    by (auto simp: isDigit_def isWhiteSpace_def Let_def)
  from a assms show ?thesis
    by (simp add: toInt_def startsWith_def parseInt10_def trimStart_def digitsVal_def Let_def)
qed


section \<open>groupTransitLayers\<close>

lemma routeType_no_keys:
  "routeType nts \<lparr>geometry = None, properties = Some []\<rparr> = []"
  by (simp add: routeType_def routeTypeKeys_def getProp_def)

lemma groupTransitLayers_all_None: "all (groupTransitLayers nts d) = None"
proof (cases d)
  case None
  then show ?thesis by (simp add: groupTransitLayers_def)
next
  case (Some data)
  show ?thesis
  proof (cases "features data")
    case Nil
    with Some show ?thesis by (simp add: groupTransitLayers_def)
  next
    case (Cons f fs)
    let ?r = "routeType nts f"
    consider "?r = ''train''" | "?r \<in> set [''standard'', ''cat'', ''school'']"
      | "?r \<notin> set [''train'', ''standard'', ''cat'', ''school'']"
      by auto
    then show ?thesis
    proof cases
      case 1
      with Some Cons show ?thesis
        by (simp add: groupTransitLayers_def makeCollection_def Let_def)
    next
      case 2
      with Some Cons show ?thesis
        by (simp add: groupTransitLayers_def makeCollection_def Let_def)
    next
      case 3
      with Some Cons show ?thesis
        by (simp add: groupTransitLayers_def makeCollection_def Let_def)
    qed
  qed
qed

text \<open>
  C1. The fallback branch of \<open>groupTransitLayers\<close> is never taken: an absent or empty
  feed returns the empty mapping before it, and in a feed with features every feature
  falls in one of the three groups, a feature with no route-type key in \<open>other\<close>. So
  no result has the key \<open>all\<close>; the feed of one feature with no property is grouped
  entirely under \<open>other\<close>.
\<close>

theorem groupTransitLayers_never_all:
  "all (groupTransitLayers nts d) = None
   \<and> groupTransitLayers nts (Some \<lparr>features = [\<lparr>geometry = None, properties = Some []\<rparr>]\<rparr>) =
       \<lparr>train = None, bus = None,
        other = Some \<lparr>features = [\<lparr>geometry = None, properties = Some []\<rparr>]\<rparr>,
        all = None\<rparr>"
proof -
  have "groupTransitLayers nts (Some \<lparr>features = [\<lparr>geometry = None, properties = Some []\<rparr>]\<rparr>) =
       \<lparr>train = None, bus = None,
        other = Some \<lparr>features = [\<lparr>geometry = None, properties = Some []\<rparr>]\<rparr>,
        all = None\<rparr>"
    by (simp add: groupTransitLayers_def makeCollection_def Let_def routeType_no_keys)
  with groupTransitLayers_all_None show ?thesis by blast
qed

section \<open>The decile range of buildMetadata\<close>

lemma scan_null_decile:
  "scanFeature nts \<lparr>names = [], groups = [], irad = []\<rparr>
     \<lparr>geometry = None, properties = Some [(''IRAD_decile'', VNull)]\<rparr> =
   Inr \<lparr>names = [''IRAD_decile''], groups = [], irad = [Fin 0]\<rparr>"
  by (simp add: scanFeature_def getProp_def setAdd_def Let_def)

lemma scan_decile_three:
  "scanFeature nts \<lparr>names = [], groups = [], irad = []\<rparr>
     \<lparr>geometry = None, properties = Some [(''IRAD_decile'', VNum (Fin 3))]\<rparr> =
   Inr \<lparr>names = [''IRAD_decile''], groups = [], irad = [Fin 3]\<rparr>"
  by (simp add: scanFeature_def getProp_def setAdd_def Let_def)

lemma scan_null_decile_after:
  "scanFeature nts \<lparr>names = [''IRAD_decile''], groups = [], irad = [Fin 3]\<rparr>
     \<lparr>geometry = None, properties = Some [(''IRAD_decile'', VNull)]\<rparr> =
   Inr \<lparr>names = [''IRAD_decile''], groups = [], irad = [Fin 3, Fin 0]\<rparr>"
  by (simp add: scanFeature_def getProp_def setAdd_def Let_def)

text \<open>
  C2. \<open>Number(null)\<close> is 0 and 0 is not NaN, so a feature whose \<open>IRAD_decile\<close> is null
  puts 0 among the values: alone it gives the range \<open>[0, 0]\<close>, and next to a feature of
  decile 3 it gives \<open>[0, 3]\<close>.
\<close>

theorem buildMetadata_null_decile_is_zero:
  "map_sum id iradRange
     (buildMetadata nts \<lparr>features = [\<lparr>geometry = None, properties = Some [(''IRAD_decile'', VNull)]\<rparr>]\<rparr>) =
   Inr (Some (Fin 0, Fin 0))
   \<and> map_sum id iradRange
     (buildMetadata nts \<lparr>features =
        [\<lparr>geometry = None, properties = Some [(''IRAD_decile'', VNum (Fin 3))]\<rparr>,
         \<lparr>geometry = None, properties = Some [(''IRAD_decile'', VNull)]\<rparr>]\<rparr>) =
   Inr (Some (Fin 0, Fin 3))"
  by (simp add: buildMetadata_def scan_null_decile scan_decile_three scan_null_decile_after
      mathMinList_def mathMaxList_def)

section \<open>summarizeCatchments\<close>

lemma collect_apply:
  "collect data level ls k =
     (if k = level \<and> levelFeatures (Some data) level \<noteq> []
      then Some \<lparr>features = levelFeatures (Some data) level\<rparr> else ls k)"
  by (simp add: collect_def levelFeatures_def Let_def)

lemma layers_summarizeCatchments:
  "layers (summarizeCatchments d) level =
     (if level \<in> {''primary'', ''high'', ''other''} \<and> levelFeatures d level \<noteq> []
      then Some \<lparr>features = levelFeatures d level\<rparr> else None)"
proof (cases d)
  case None
  then show ?thesis by (simp add: summarizeCatchments_def levelFeatures_def)
next
  case (Some data)
  show ?thesis
  proof (cases "features data = []")
    case True
    with Some show ?thesis by (simp add: summarizeCatchments_def levelFeatures_def)
  next
    case False
    with Some have "layers (summarizeCatchments d) =
        collect data ''other'' (collect data ''high'' (collect data ''primary'' Map.empty))"
      by (simp add: summarizeCatchments_def Let_def)
    with Some show ?thesis
      by (auto simp: collect_apply)
  qed
qed

lemma only_primary:
  assumes ne: "features data \<noteq> []"
    and all: "list_all (\<lambda>f. getProp f ''catchment_level'' = Some (VStr ''primary'')) (features data)"
  shows "layers (summarizeCatchments (Some data)) k =
           (if k = ''primary'' then Some \<lparr>features = features data\<rparr> else None)"
proof -
  have prim: "levelFeatures (Some data) ''primary'' = features data"
    using all by (simp add: levelFeatures_def list_all_iff)
  have other: "levelFeatures (Some data) k = []" if "k \<noteq> ''primary''"
    using all that by (auto simp: levelFeatures_def list_all_iff filter_empty_conv)
  show ?thesis
  proof (cases "k = ''primary''")
    case True
    have "layers (summarizeCatchments (Some data)) ''primary'' = Some \<lparr>features = features data\<rparr>"
      unfolding layers_summarizeCatchments prim using ne by simp
    with True show ?thesis by simp
  next
    case False
    have "layers (summarizeCatchments (Some data)) k = None"
      unfolding layers_summarizeCatchments other [OF False] by simp
    with False show ?thesis by simp
  qed
qed

lemma dom_single: "(\<And>k. m k = (if k = a then Some x else None)) \<Longrightarrow> dom m = {a}"
  by (auto simp: dom_def split: if_splits)

text \<open>
  C8. The mapping that \<open>summarizeCatchments\<close> returns has, for each of the levels
  primary, high and other, the features whose \<open>catchment_level\<close> is exactly that
  string, in feed order, when there is one, and no key otherwise: an empty group is
  absent. For a feed that has features, all of level primary, the keys of the mapping
  are exactly \<open>primary\<close>.
\<close>

theorem summarizeCatchments_layers:
  "layers (summarizeCatchments d) level =
     (if level \<in> {''primary'', ''high'', ''other''} \<and> levelFeatures d level \<noteq> []
      then Some \<lparr>features = levelFeatures d level\<rparr> else None)
   \<and> (features data \<noteq> [] \<and>
        list_all (\<lambda>f. getProp f ''catchment_level'' = Some (VStr ''primary'')) (features data)
        \<longrightarrow> dom (layers (summarizeCatchments (Some data))) = {''primary''})"
proof (intro conjI impI)
  show "layers (summarizeCatchments d) level =
     (if level \<in> {''primary'', ''high'', ''other''} \<and> levelFeatures d level \<noteq> []
      then Some \<lparr>features = levelFeatures d level\<rparr> else None)"
    by (rule layers_summarizeCatchments)
next
  assume h: "features data \<noteq> [] \<and>
        list_all (\<lambda>f. getProp f ''catchment_level'' = Some (VStr ''primary'')) (features data)"
  show "dom (layers (summarizeCatchments (Some data))) = {''primary''}"
    by (rule dom_single) (rule only_primary [OF conjunct1 [OF h] conjunct2 [OF h]])
qed

text \<open>
  A feed of one feature of level primary: the mapping has the key \<open>primary\<close> with
  that feature, and no other key.
\<close>

theorem summarizeCatchments_layers_witness:
  "layers (summarizeCatchments (Some \<lparr>features =
      [\<lparr>geometry = None, properties = Some [(''catchment_level'', VStr ''primary'')]\<rparr>]\<rparr>)) ''primary'' =
     Some \<lparr>features = [\<lparr>geometry = None, properties = Some [(''catchment_level'', VStr ''primary'')]\<rparr>]\<rparr>
   \<and> dom (layers (summarizeCatchments (Some \<lparr>features =
      [\<lparr>geometry = None, properties = Some [(''catchment_level'', VStr ''primary'')]\<rparr>]\<rparr>))) = {''primary''}"
proof -
  let ?f = "\<lparr>geometry = None, properties = Some [(''catchment_level'', VStr ''primary'')]\<rparr>"
  have lf: "levelFeatures (Some \<lparr>features = [?f]\<rparr>) ''primary'' = [?f]"
    by (simp add: levelFeatures_def getProp_def)
  have hyp: "features \<lparr>features = [?f]\<rparr> \<noteq> [] \<and>
      list_all (\<lambda>f. getProp f ''catchment_level'' = Some (VStr ''primary'')) (features \<lparr>features = [?f]\<rparr>)"
    by (simp add: getProp_def)
  from summarizeCatchments_layers [of "Some \<lparr>features = [?f]\<rparr>" "''primary''" "\<lparr>features = [?f]\<rparr>"] hyp lf
  show ?thesis by simp
qed

section \<open>parsePercentile\<close>

lemma toDouble_87_5: "toDouble (175 / 2) = Fin (175 / 2)"
  by (simp add: number_eval_defs)

lemma stringToNumber_87_5: "stringToNumber ''87.5'' = Fin (175 / 2)"
  by (simp add: literal_eval_defs toDouble_87_5)

lemma toDouble_5: "toDouble 5 = Fin 5"
  by (simp add: number_eval_defs)

lemma stringToNumber_5: "stringToNumber ''5'' = Fin 5"
  by (simp add: literal_eval_defs toDouble_5)

text \<open>
  C9 does not hold as stated, on a string with two percent signs: the code removes
  both and answers 5, while the text left by stripping white space and one optional
  trailing percent sign, \<open>5%\<close>, is no number.
\<close>

theorem parsePercentile_two_signs:
  "parsePercentile (Some (VStr ''5%%'')) = Some (Fin 5)
   \<and> stripOptionalPercent ''5%%'' = ''5%''
   \<and> stringToNumber (stripOptionalPercent ''5%%'') = NaN"
proof -
  have a: "parsePercentile (Some (VStr ''5%%'')) = Some (Fin 5)"
    by (simp add: parsePercentile_def stripPercent_def stringToNumber_5 string_eval_defs)
  have b: "stripOptionalPercent ''5%%'' = ''5%''"
    by (simp add: stripOptionalPercent_def string_eval_defs)
  have c: "stringToNumber ''5%'' = NaN"
    by (simp add: literal_eval_defs)
  from a b c show ?thesis by simp
qed

text \<open>
  C9, amended. \<open>parsePercentile\<close> has no failing branch. It returns a finite number
  as it is; for a string it removes every percent sign, then the surrounding white
  space, and returns \<open>Number\<close> of what is left when that is not empty and its number
  is finite; it returns null for everything else (null, undefined, a boolean, NaN, an
  infinity, any other string). What it returns is finite. The three examples of the
  specification evaluate as stated.
\<close>

theorem parsePercentile_rule:
  "parsePercentile (Some (VNum n)) = (if isFinite n then Some n else None)
   \<and> parsePercentile (Some (VStr s)) =
       (if trim (stripPercent s) \<noteq> [] \<and> isFinite (stringToNumber (trim (stripPercent s)))
        then Some (stringToNumber (trim (stripPercent s))) else None)
   \<and> parsePercentile None = None
   \<and> parsePercentile (Some VNull) = None
   \<and> parsePercentile (Some (VBool b)) = None
   \<and> (case parsePercentile v of None \<Rightarrow> True | Some r \<Rightarrow> isFinite r)
   \<and> parsePercentile (Some (VStr ''87.5%'')) = Some (Fin (175 / 2))
   \<and> parsePercentile (Some (VStr '''')) = None
   \<and> parsePercentile (Some (VNum (Fin 42))) = Some (Fin 42)"
proof -
  have fin: "case parsePercentile v of None \<Rightarrow> True | Some r \<Rightarrow> isFinite r"
    by (simp add: parsePercentile_def Let_def split: option.splits jsval.splits)
  have e1: "parsePercentile (Some (VStr ''87.5%'')) = Some (Fin (175 / 2))"
    by (simp add: parsePercentile_def stripPercent_def stringToNumber_87_5 string_eval_defs)
  have e2: "parsePercentile (Some (VStr '''')) = None"
    by (simp add: parsePercentile_def stripPercent_def string_eval_defs)
  show ?thesis
    using fin e1 e2 by (simp add: parsePercentile_def Let_def)
qed

section \<open>summarizeSchools\<close>

lemma dom_bumpStage: "dom m \<subseteq> dom (bumpStage m k)"
  by (auto simp: bumpStage_def split: option.splits)

lemma dom_bumpCount: "dom (bumpCount m k) \<subseteq> insert k (dom m)"
  by (auto simp: bumpCount_def split: option.splits if_splits)

lemma occurringTexts_Cons:
  "occurringTexts nts key (f # fs) =
     (if trimmedText nts (getProp f key) \<noteq> [] then {trimmedText nts (getProp f key)} else {})
     \<union> occurringTexts nts key fs"
  by (simp add: occurringTexts_def)

lemma countFeature_Inr:
  assumes "countFeature nts s f = Inr s'"
  shows "schoolsCount s' = schoolsCount s"
    and "dom (stageCounts s) \<subseteq> dom (stageCounts s')"
    and "dom (sectorCounts s') \<subseteq> dom (sectorCounts s) \<union> occurringTexts nts ''sector'' [f]"
    and "dom (remoteCounts s') \<subseteq> dom (remoteCounts s) \<union> occurringTexts nts ''remotearea'' [f]"
proof -
  from assms obtain stage where st: "stageKey (getProp f ''stage'') = Inr stage"
    and s': "s' = s\<lparr>sectorCounts :=
                      (if trimmedText nts (getProp f ''sector'') \<noteq> []
                       then bumpCount (sectorCounts s) (trimmedText nts (getProp f ''sector''))
                       else sectorCounts s),
                    remoteCounts :=
                      (if trimmedText nts (getProp f ''remotearea'') \<noteq> []
                       then bumpCount (remoteCounts s) (trimmedText nts (getProp f ''remotearea''))
                       else remoteCounts s),
                    stageCounts := bumpStage (stageCounts s) stage\<rparr>"
    by (auto simp: countFeature_def Let_def split: sum.splits)
  show "schoolsCount s' = schoolsCount s" by (simp add: s')
  show "dom (stageCounts s) \<subseteq> dom (stageCounts s')" by (simp add: s' dom_bumpStage)
  show "dom (sectorCounts s') \<subseteq> dom (sectorCounts s) \<union> occurringTexts nts ''sector'' [f]"
    using dom_bumpCount [of "sectorCounts s" "trimmedText nts (getProp f ''sector'')"]
    by (auto simp: s' occurringTexts_Cons)
  show "dom (remoteCounts s') \<subseteq> dom (remoteCounts s) \<union> occurringTexts nts ''remotearea'' [f]"
    using dom_bumpCount [of "remoteCounts s" "trimmedText nts (getProp f ''remotearea'')"]
    by (auto simp: s' occurringTexts_Cons)
qed

lemma foldE_countFeature:
  "foldE (countFeature nts) s fs = Inr s' \<Longrightarrow>
     schoolsCount s' = schoolsCount s
     \<and> dom (stageCounts s) \<subseteq> dom (stageCounts s')
     \<and> dom (sectorCounts s') \<subseteq> dom (sectorCounts s) \<union> occurringTexts nts ''sector'' fs
     \<and> dom (remoteCounts s') \<subseteq> dom (remoteCounts s) \<union> occurringTexts nts ''remotearea'' fs"
proof (induction fs arbitrary: s)
  case Nil
  then show ?case by (simp add: occurringTexts_def)
next
  case (Cons f fs)
  from Cons.prems obtain s1 where step: "countFeature nts s f = Inr s1"
    and rest: "foldE (countFeature nts) s1 fs = Inr s'"
    by (auto split: sum.splits)
  note a = countFeature_Inr [OF step]
  note b = Cons.IH [OF rest]
  have o1: "occurringTexts nts ''sector'' (f # fs) =
      occurringTexts nts ''sector'' [f] \<union> occurringTexts nts ''sector'' fs"
    by (simp add: occurringTexts_def)
  have o2: "occurringTexts nts ''remotearea'' (f # fs) =
      occurringTexts nts ''remotearea'' [f] \<union> occurringTexts nts ''remotearea'' fs"
    by (simp add: occurringTexts_def)
  have "schoolsCount s' = schoolsCount s"
    using a(1) b by simp
  moreover have "dom (stageCounts s) \<subseteq> dom (stageCounts s')"
    using a(2) b by blast
  moreover have "dom (sectorCounts s') \<subseteq> dom (sectorCounts s) \<union> occurringTexts nts ''sector'' (f # fs)"
    unfolding o1 using a(3) b by blast
  moreover have "dom (remoteCounts s') \<subseteq> dom (remoteCounts s) \<union> occurringTexts nts ''remotearea'' (f # fs)"
    unfolding o2 using a(4) b by blast
  ultimately show ?case by simp
qed

lemma dom_initialStageCounts:
  "dom initialStageCounts = {''primary'', ''secondary'', ''combined'', ''other''}"
  by (auto simp: initialStageCounts_def)

text \<open>
  C10. \<open>summarizeSchools\<close> returns null for a null collection and for a collection
  with no feature. A summary that it returns counts at least one feature, its
  \<open>stageCounts\<close> has the four keys primary, secondary, combined and other, and every
  key of its \<open>sectorCounts\<close> and \<open>remoteCounts\<close> is a non-blank trimmed text that
  the property takes in some feature of the collection.
\<close>

theorem summarizeSchools_summary:
  "summarizeSchools nts None = Inr None
   \<and> summarizeSchools nts (Some (c\<lparr>features := []\<rparr>)) = Inr None
   \<and> (summarizeSchools nts (Some c) = Inr (Some s) \<longrightarrow>
        0 < schoolsCount s
        \<and> schoolsCount s = length (features c)
        \<and> {''primary'', ''secondary'', ''combined'', ''other''} \<subseteq> dom (stageCounts s)
        \<and> dom (sectorCounts s) \<subseteq> occurringTexts nts ''sector'' (features c)
        \<and> dom (remoteCounts s) \<subseteq> occurringTexts nts ''remotearea'' (features c))"
proof (intro conjI impI)
  show "summarizeSchools nts None = Inr None"
    by (simp add: summarizeSchools_def)
  show "summarizeSchools nts (Some (c\<lparr>features := []\<rparr>)) = Inr None"
    by (simp add: summarizeSchools_def)
next
  assume r: "summarizeSchools nts (Some c) = Inr (Some s)"
  then have ne: "features c \<noteq> []"
    by (auto simp: summarizeSchools_def split: if_splits)
  with r have f: "foldE (countFeature nts)
      \<lparr>schoolsCount = length (features c), sectorCounts = Map.empty,
       remoteCounts = Map.empty, stageCounts = initialStageCounts\<rparr> (features c) = Inr s"
    by (auto simp: summarizeSchools_def split: sum.splits)
  note inv = foldE_countFeature [OF f]
  from inv ne show "0 < schoolsCount s" by simp
  from inv show "schoolsCount s = length (features c)" by simp
  from inv show "{''primary'', ''secondary'', ''combined'', ''other''} \<subseteq> dom (stageCounts s)"
    by (simp add: dom_initialStageCounts)
  from inv show "dom (sectorCounts s) \<subseteq> occurringTexts nts ''sector'' (features c)" by simp
  from inv show "dom (remoteCounts s) \<subseteq> occurringTexts nts ''remotearea'' (features c)" by simp
qed

lemma initialStageCounts_primary: "initialStageCounts ''primary'' = Some (VNum (Fin 0))"
  by (simp add: initialStageCounts_def)

lemma toDouble_1: "toDouble 1 = Fin 1"
  by (simp add: number_eval_defs)

lemma countFeature_example:
  "countFeature (\<lambda>n. [])
      \<lparr>schoolsCount = k, sectorCounts = Map.empty, remoteCounts = Map.empty,
       stageCounts = initialStageCounts\<rparr>
      \<lparr>geometry = None,
       properties = Some [(''sector'', VStr '' Government ''), (''stage'', VStr ''Primary'')]\<rparr> =
    Inr \<lparr>schoolsCount = k, sectorCounts = [''Government'' \<mapsto> VNum (Fin 1)],
         remoteCounts = Map.empty,
         stageCounts = initialStageCounts(''primary'' \<mapsto> VNum (Fin 1))\<rparr>"
  by (simp add: countFeature_def trimmedText_def getProp_def stageKey_def bumpCount_def bumpStage_def
      objectProtoMethods_def initialStageCounts_primary toDouble_1 string_eval_defs Let_def)

text \<open>
  A collection of one government primary school: the summary counts it under the
  trimmed sector and under the lower-cased stage.
\<close>

theorem summarizeSchools_summary_witness:
  "summarizeSchools (\<lambda>n. [])
     (Some \<lparr>features = [\<lparr>geometry = None,
        properties = Some [(''sector'', VStr '' Government ''), (''stage'', VStr ''Primary'')]\<rparr>]\<rparr>) =
     Inr (Some \<lparr>schoolsCount = 1, sectorCounts = [''Government'' \<mapsto> VNum (Fin 1)],
         remoteCounts = Map.empty,
         stageCounts = initialStageCounts(''primary'' \<mapsto> VNum (Fin 1))\<rparr>)
   \<and> {''primary'', ''secondary'', ''combined'', ''other''}
        \<subseteq> dom (initialStageCounts(''primary'' \<mapsto> VNum (Fin 1)))
   \<and> dom [''Government'' \<mapsto> VNum (Fin 1)] \<subseteq>
        occurringTexts (\<lambda>n. []) ''sector''
          [\<lparr>geometry = None,
            properties = Some [(''sector'', VStr '' Government ''), (''stage'', VStr ''Primary'')]\<rparr>]"
proof -
  let ?f = "\<lparr>geometry = None,
        properties = Some [(''sector'', VStr '' Government ''), (''stage'', VStr ''Primary'')]\<rparr>"
  let ?s = "\<lparr>schoolsCount = 1, sectorCounts = [''Government'' \<mapsto> VNum (Fin 1)],
         remoteCounts = Map.empty,
         stageCounts = initialStageCounts(''primary'' \<mapsto> VNum (Fin 1))\<rparr>"
  have h: "summarizeSchools (\<lambda>n. []) (Some \<lparr>features = [?f]\<rparr>) = Inr (Some ?s)"
    by (simp add: summarizeSchools_def countFeature_example)
  from summarizeSchools_summary [of "\<lambda>n. []" "\<lparr>features = [?f]\<rparr>" ?s] h
  show ?thesis by simp
qed

section \<open>computeBounds\<close>

lemma extendBounds_finite:
  "finitePair p = Some (x, y) \<Longrightarrow>
     extendBounds (a, b, c, d) p =
       (mathMin a (Fin x), mathMin b (Fin y), mathMax c (Fin x), mathMax d (Fin y))"
  by (auto simp: finitePair_def extendBounds_def split: option.splits jsnum.splits)

lemma extendBounds_other: "finitePair p = None \<Longrightarrow> extendBounds b p = b"
  by (cases b) (auto simp: finitePair_def extendBounds_def split: option.splits jsnum.splits)

lemma envelope_snoc:
  "envelope (qs @ [(x, y)]) =
     (case envelope qs of (a, b, c, d) \<Rightarrow>
        (mathMin a (Fin x), mathMin b (Fin y), mathMax c (Fin x), mathMax d (Fin y)))"
proof (cases "qs = []")
  case True
  then show ?thesis by (simp add: envelope_def)
next
  case False
  then have ne: "fst ` set qs \<noteq> {}" "snd ` set qs \<noteq> {}" by simp_all
  have fin: "finite (fst ` set qs)" "finite (snd ` set qs)" by simp_all
  show ?thesis
    using False Min_insert [OF fin(1) ne(1), of x] Min_insert [OF fin(2) ne(2), of y]
      Max_insert [OF fin(1) ne(1), of x] Max_insert [OF fin(2) ne(2), of y]
    by (simp add: envelope_def min.commute max.commute)
qed

lemma map_filter_append:
  "List.map_filter g (xs @ ys) = List.map_filter g xs @ List.map_filter g ys"
  by (simp add: map_filter_def)

lemma foldl_extendBounds:
  "foldl extendBounds (PosInf, PosInf, NegInf, NegInf) ps = envelope (List.map_filter finitePair ps)"
proof (induction ps rule: rev_induct)
  case Nil
  show ?case by (simp add: envelope_def)
next
  case (snoc p ps)
  show ?case
  proof (cases "finitePair p")
    case None
    with snoc show ?thesis
      by (simp add: extendBounds_other map_filter_append)
  next
    case (Some q)
    obtain x y where q: "q = (x, y)" by (cases q)
    obtain a b c d where e: "envelope (List.map_filter finitePair ps) = (a, b, c, d)"
      by (cases "envelope (List.map_filter finitePair ps)")
    from Some q have fp: "finitePair p = Some (x, y)" by simp
    have "List.map_filter finitePair (ps @ [p]) = List.map_filter finitePair ps @ [(x, y)]"
      using fp by (simp add: map_filter_append)
    with snoc e fp show ?thesis
      by (simp add: envelope_snoc extendBounds_finite)
  qed
qed


lemma computeBounds_finitePoints:
  "computeBounds gs =
     (if finitePoints gs = [] then None
      else Some (Fin (Min (fst ` set (finitePoints gs))), Fin (Min (snd ` set (finitePoints gs))),
                 Fin (Max (fst ` set (finitePoints gs))), Fin (Max (snd ` set (finitePoints gs)))))"
proof -
  define ps where "ps = concat (map featurePoints gs)"
  have cb: "computeBounds gs =
      (if ps = [] then None
       else (case envelope (List.map_filter finitePair ps) of
               (minLon, minLat, maxLon, maxLat) \<Rightarrow>
                 if \<not> (isFinite minLon \<and> isFinite minLat \<and> isFinite maxLon \<and> isFinite maxLat)
                 then None
                 else Some (minLon, minLat, maxLon, maxLat)))"
    by (simp add: computeBounds_def ps_def foldl_extendBounds Let_def)
  have fp: "finitePoints gs = List.map_filter finitePair ps"
    by (simp add: finitePoints_def ps_def)
  show ?thesis
  proof (cases "ps = []")
    case True
    then show ?thesis by (simp add: cb fp)
  next
    case False
    then show ?thesis by (simp add: cb fp envelope_def)
  qed
qed

text \<open>
  The traversal of \<open>flattenCoords\<close> meets the finite pairs of the positions that the
  geometry holds, all of them and no other: the coordinates of a Point past the second
  are dropped, and they are not read.
\<close>

lemma coordAt_take2: "i < 2 \<Longrightarrow> coordAt (take 2 c) i = coordAt c i"
  by (simp add: coordAt_def)

lemma finitePair_take2: "finitePair (take 2 c) = finitePair c"
  by (simp add: finitePair_def coordAt_take2)

lemma these_image_UN:
  "Option.these (g ` (\<Union>x \<in> A. B x)) = (\<Union>x \<in> A. Option.these (g ` B x))"
proof (rule set_eqI)
  fix q
  show "q \<in> Option.these (g ` (\<Union>x \<in> A. B x)) \<longleftrightarrow> q \<in> (\<Union>x \<in> A. Option.these (g ` B x))"
    by (simp add: Option.in_these_eq image_iff)
qed

lemma these_finitePair_flattenCoords:
  "Option.these (finitePair ` set (flattenCoords g)) = Option.these (finitePair ` geometryPositions g)"
proof (induction g)
  case (Point c)
  show ?case by (simp add: finitePair_take2)
next
  case (MultiPoint cs)
  show ?case by simp
next
  case (LineString cs)
  show ?case by simp
next
  case (MultiLineString ls)
  show ?case by simp
next
  case (Polygon rings)
  show ?case by simp
next
  case (MultiPolygon polys)
  have "set (concat (map concat polys)) = (\<Union>poly \<in> set polys. \<Union>r \<in> set poly. set r)"
    by (induction polys) auto
  then show ?case by simp
next
  case (GeometryCollection gs)
  have "Option.these (finitePair ` (\<Union>g \<in> set gs. set (flattenCoords g))) =
        (\<Union>g \<in> set gs. Option.these (finitePair ` set (flattenCoords g)))"
    by (rule these_image_UN)
  also have "\<dots> = (\<Union>g \<in> set gs. Option.these (finitePair ` geometryPositions g))"
    using GeometryCollection.IH by simp
  also have "\<dots> = Option.these (finitePair ` (\<Union>g \<in> set gs. geometryPositions g))"
    by (rule these_image_UN [symmetric])
  finally show ?case by simp
next
  case OtherGeometry
  show ?case by simp
qed

lemma set_map_filter_these: "set (List.map_filter g xs) = Option.these (g ` set xs)"
proof (induction xs)
  case Nil
  show ?case by simp
next
  case (Cons x xs)
  show ?case
  proof (cases "g x")
    case None
    with Cons show ?thesis by simp
  next
    case (Some y)
    with Cons show ?thesis by simp
  qed
qed

lemma these_finitePair_featurePoints:
  "Option.these (finitePair ` set (featurePoints f)) =
     (case geometry f of None \<Rightarrow> {} | Some g \<Rightarrow> Option.these (finitePair ` geometryPositions g))"
  by (simp add: featurePoints_def these_finitePair_flattenCoords split: option.splits)

lemma set_finitePoints: "set (finitePoints fs) = finitePairs fs"
proof -
  have "set (finitePoints fs) = (\<Union>f \<in> set fs. Option.these (finitePair ` set (featurePoints f)))"
    by (simp add: finitePoints_def set_map_filter_these these_image_UN)
  also have "\<dots> = finitePairs fs"
    by (simp only: finitePairs_def these_finitePair_featurePoints)
  finally show ?thesis .
qed

lemma finitePoints_Nil_iff: "finitePoints fs = [] \<longleftrightarrow> finitePairs fs = {}"
proof -
  have "finitePoints fs = [] \<longleftrightarrow> set (finitePoints fs) = {}" by simp
  then show ?thesis by (simp only: set_finitePoints)
qed

text \<open>
  C7. \<open>computeBounds\<close> has no failing branch. It returns null when the geometries of
  the features hold no finite coordinate pair, which covers the empty list and the list
  whose pairs all have a coordinate that is missing, NaN or infinite; otherwise it
  returns the least and greatest longitude and latitude of the finite pairs that the
  geometries hold, of every variant and at any depth of nesting, as
  \<open>[minLon, minLat, maxLon, maxLat]\<close>. When there is one finite pair the box is
  that point twice.
\<close>

theorem computeBounds_envelope:
  "computeBounds fs =
     (if finitePairs fs = {} then None
      else Some (Fin (Min (fst ` finitePairs fs)), Fin (Min (snd ` finitePairs fs)),
                 Fin (Max (fst ` finitePairs fs)), Fin (Max (snd ` finitePairs fs))))
   \<and> computeBounds [] = None
   \<and> (finitePairs fs = {(x, y)} \<longrightarrow> computeBounds fs = Some (Fin x, Fin y, Fin x, Fin y))"
proof -
  have main: "computeBounds fs =
     (if finitePairs fs = {} then None
      else Some (Fin (Min (fst ` finitePairs fs)), Fin (Min (snd ` finitePairs fs)),
                 Fin (Max (fst ` finitePairs fs)), Fin (Max (snd ` finitePairs fs))))"
    using computeBounds_finitePoints [of fs]
    by (simp only: finitePoints_Nil_iff set_finitePoints)
  have empty: "computeBounds [] = None"
    by (simp add: computeBounds_def)
  have single: "computeBounds fs = Some (Fin x, Fin y, Fin x, Fin y)" if "finitePairs fs = {(x, y)}"
    unfolding main using that by simp
  from main empty single show ?thesis by simp
qed

text \<open>
  A feature that is a collection of a line from (1, 2) to (3, 4) and a point with no
  finite longitude has the box (1, 2, 3, 4); a feature that is one point has that
  point twice.
\<close>

theorem computeBounds_envelope_witness:
  "computeBounds
     [\<lparr>geometry = Some (GeometryCollection
         [LineString [[Fin 1, Fin 2], [Fin 3, Fin 4]], Point [NaN, Fin 9]]),
       properties = None\<rparr>] =
     Some (Fin 1, Fin 2, Fin 3, Fin 4)
   \<and> finitePairs [\<lparr>geometry = Some (Point [Fin 115, Fin (- 31)]), properties = None\<rparr>] = {(115, - 31)}
   \<and> computeBounds [\<lparr>geometry = Some (Point [Fin 115, Fin (- 31)]), properties = None\<rparr>] =
       Some (Fin 115, Fin (- 31), Fin 115, Fin (- 31))"
proof -
  let ?line = "[\<lparr>geometry = Some (GeometryCollection
         [LineString [[Fin 1, Fin 2], [Fin 3, Fin 4]], Point [NaN, Fin 9]]),
       properties = None\<rparr>]"
  let ?point = "[\<lparr>geometry = Some (Point [Fin 115, Fin (- 31)]), properties = None\<rparr>]"
  have l: "finitePairs ?line = {(1, 2), (3, 4)}"
    by (simp add: finitePairs_def finitePair_def coordAt_def)
  have h: "finitePairs ?point = {(115, - 31)}"
    by (simp add: finitePairs_def finitePair_def coordAt_def)
  from computeBounds_envelope [of ?line] l
  have a: "computeBounds ?line = Some (Fin 1, Fin 2, Fin 3, Fin 4)"
    by simp
  from computeBounds_envelope [of ?point 115 "- 31"] h
  have b: "computeBounds ?point = Some (Fin 115, Fin (- 31), Fin 115, Fin (- 31))"
    by simp
  from a h b show ?thesis by simp
qed

section \<open>ensureSchoolStages\<close>

lemma normalize_stringOrFalsy: "stringOrFalsy v \<Longrightarrow> \<exists>s. normalize v = Inr s"
  by (cases v rule: stringOrFalsy.cases) (auto simp: normalize_def)

lemma computeStage_stringOrFalsy:
  assumes "stringOrFalsy lo" and "stringOrFalsy hi"
  shows "\<exists>st. computeStage lo hi = Inr st"
proof -
  from normalize_stringOrFalsy [OF assms(1)] obtain l where l: "normalize lo = Inr l" ..
  from normalize_stringOrFalsy [OF assms(2)] obtain h where h: "normalize hi = Inr h" ..
  show ?thesis by (simp add: computeStage_def l h Let_def)
qed

lemma ensureFeatureStage_truthy:
  assumes "truthyOpt (getProp f ''stage'')"
  shows "\<exists>g. ensureFeatureStage f = Inr g \<and> stagedAs f g"
proof -
  let ?ps = "case properties f of None \<Rightarrow> [] | Some p \<Rightarrow> p"
  have m: "map_of ?ps k = getProp f k" for k
    by (simp add: getProp_def split: option.splits)
  have "ensureFeatureStage f = Inr (f\<lparr>properties := Some ?ps\<rparr>)"
    using assms by (simp add: ensureFeatureStage_def m Let_def)
  moreover have "stagedAs f (f\<lparr>properties := Some ?ps\<rparr>)"
    using assms by (simp add: stagedAs_def getProp_def split: option.splits)
  ultimately show ?thesis by blast
qed

lemma ensureFeatureStage_falsy:
  assumes ns: "\<not> truthyOpt (getProp f ''stage'')"
    and lo: "stringOrFalsy (getProp f ''lowyear'')"
    and hi: "stringOrFalsy (getProp f ''highyear'')"
  shows "\<exists>g. ensureFeatureStage f = Inr g \<and> stagedAs f g"
proof -
  let ?ps = "case properties f of None \<Rightarrow> [] | Some p \<Rightarrow> p"
  have m: "map_of ?ps k = getProp f k" for k
    by (simp add: getProp_def split: option.splits)
  from computeStage_stringOrFalsy [OF lo hi] obtain st
    where st: "computeStage (getProp f ''lowyear'') (getProp f ''highyear'') = Inr st" ..
  let ?g = "f\<lparr>properties := Some (AList.update ''stage'' (VStr st) ?ps)\<rparr>"
  have "ensureFeatureStage f = Inr ?g"
    using ns st by (simp add: ensureFeatureStage_def m Let_def)
  moreover have "getProp ?g k = (if k = ''stage'' then Some (VStr st) else getProp f k)" for k
    by (simp add: getProp_def update_conv' m)
  then have "stagedAs f ?g"
    using ns st by (simp add: stagedAs_def)
  ultimately show ?thesis by blast
qed

lemma ensureFeatureStage_classifiable:
  "classifiable f \<Longrightarrow> \<exists>g. ensureFeatureStage f = Inr g \<and> stagedAs f g"
  using ensureFeatureStage_truthy [of f] ensureFeatureStage_falsy [of f]
  by (auto simp: classifiable_def)

lemma mapE_list_all2:
  assumes "\<And>x. P x \<Longrightarrow> \<exists>y. g x = Inr y \<and> R x y"
  shows "list_all P xs \<Longrightarrow> \<exists>ys. mapE g xs = Inr ys \<and> list_all2 R xs ys"
proof (induction xs)
  case Nil
  then show ?case by simp
next
  case (Cons x xs)
  from Cons.prems have "P x" and "list_all P xs" by simp_all
  from assms [OF \<open>P x\<close>] obtain y where y: "g x = Inr y" "R x y" by blast
  from Cons.IH [OF \<open>list_all P xs\<close>] obtain ys where ys: "mapE g xs = Inr ys" "list_all2 R xs ys"
    by blast
  from y ys show ?case by simp
qed

text \<open>
  C3 does not hold as stated, for two reasons. A feature that carries the stage \<open>""\<close> does
  not keep it: the test is \<open>!feature.properties.stage\<close>, the empty string is falsy, and
  the stage is recomputed. And a feature whose \<open>lowyear\<close> is the number 7 makes
  \<open>computeStage\<close> call \<open>toUpperCase\<close> on a number, so no collection is returned.
\<close>

theorem ensureSchoolStages_falsy_stage:
  "ensureSchoolStages
     (Some \<lparr>features = [\<lparr>geometry = None, properties = Some [(''stage'', VStr '''')]\<rparr>]\<rparr>) =
   Inr (Some \<lparr>features = [\<lparr>geometry = None, properties = Some [(''stage'', VStr ''other'')]\<rparr>]\<rparr>)
   \<and> ensureSchoolStages
     (Some \<lparr>features = [\<lparr>geometry = None, properties = Some [(''lowyear'', VNum (Fin 7))]\<rparr>]\<rparr>) =
   Inl TypeError"
  by (simp add: ensureSchoolStages_def ensureFeatureStage_def stage_eval_defs)

text \<open>
  C3, amended. \<open>ensureSchoolStages\<close> of null is null. For a collection whose
  features are classifiable it returns a collection with as many features, in the same
  order, each the input feature with its stage ensured: a truthy stage and every other
  property are kept, and a stage that is absent or falsy is replaced by the one that
  \<open>computeStage\<close> returns for the feature's year codes, every other property kept.
\<close>

theorem ensureSchoolStages_rule:
  "ensureSchoolStages None = Inr None
   \<and> (list_all classifiable (features c) \<longrightarrow>
        (\<exists>c'. ensureSchoolStages (Some c) = Inr (Some c')
              \<and> length (features c') = length (features c)
              \<and> list_all2 stagedAs (features c) (features c')))"
proof (intro conjI impI)
  show "ensureSchoolStages None = Inr None"
    by (simp add: ensureSchoolStages_def)
next
  assume "list_all classifiable (features c)"
  from mapE_list_all2 [of classifiable ensureFeatureStage stagedAs, OF ensureFeatureStage_classifiable this]
  obtain gs where gs: "mapE ensureFeatureStage (features c) = Inr gs"
    "list_all2 stagedAs (features c) gs"
    by blast
  have "ensureSchoolStages (Some c) = Inr (Some (c\<lparr>features := gs\<rparr>))"
    by (simp add: ensureSchoolStages_def gs(1))
  moreover have "length (features (c\<lparr>features := gs\<rparr>)) = length (features c)"
    using list_all2_lengthD [OF gs(2)] by simp
  moreover have "list_all2 stagedAs (features c) (features (c\<lparr>features := gs\<rparr>))"
    using gs(2) by simp
  ultimately show "\<exists>c'. ensureSchoolStages (Some c) = Inr (Some c')
              \<and> length (features c') = length (features c)
              \<and> list_all2 stagedAs (features c) (features c')"
    by blast
qed

text \<open>
  A school from pre-primary to year 6 that carries no stage is classifiable, and is
  returned with its stage ensured.
\<close>

theorem ensureSchoolStages_rule_witness:
  "list_all classifiable
     [\<lparr>geometry = None, properties = Some [(''lowyear'', VStr ''PP''), (''highyear'', VStr ''Y06'')]\<rparr>]
   \<and> (\<exists>c'. ensureSchoolStages
          (Some \<lparr>features =
             [\<lparr>geometry = None,
               properties = Some [(''lowyear'', VStr ''PP''), (''highyear'', VStr ''Y06'')]\<rparr>]\<rparr>) =
          Inr (Some c')
        \<and> list_all2 stagedAs
             [\<lparr>geometry = None,
               properties = Some [(''lowyear'', VStr ''PP''), (''highyear'', VStr ''Y06'')]\<rparr>]
             (features c'))"
proof -
  let ?f = "\<lparr>geometry = None,
      properties = Some [(''lowyear'', VStr ''PP''), (''highyear'', VStr ''Y06'')]\<rparr>"
  have h: "list_all classifiable (features \<lparr>features = [?f]\<rparr>)"
    by (simp add: classifiable_def getProp_def)
  from ensureSchoolStages_rule [of "\<lparr>features = [?f]\<rparr>"] h
  have "\<exists>c'. ensureSchoolStages (Some \<lparr>features = [?f]\<rparr>) = Inr (Some c')
              \<and> length (features c') = length (features \<lparr>features = [?f]\<rparr>)
              \<and> list_all2 stagedAs (features \<lparr>features = [?f]\<rparr>) (features c')"
    by blast
  with h show ?thesis by auto
qed

section \<open>The sorted sequences of buildMetadata\<close>

lemma distinct_setAdd: "distinct xs \<Longrightarrow> distinct (setAdd xs x)"
  by (simp add: setAdd_def)

lemma groupState_ok:
  assumes ok: "groupsOk gs" and r: "groupState k sa2 gs = Inr gs'"
  shows "groupsOk gs'"
proof (cases "map_of gs k")
  case (Some vs)
  from ok Some have dvs: "distinct vs" by (auto simp: groupsOk_def)
  show ?thesis
  proof (cases "truthyOpt sa2")
    case True
    then obtain v where v: "sa2 = Some v" "truthy v" by (cases sa2) auto
    with r Some have gs': "gs' = AList.update k (setAdd vs v) gs"
      by (simp add: groupState_def)
    show ?thesis
      unfolding groupsOk_def gs'
      using ok dvs by (auto simp: groupsOk_def distinct_update update_conv' distinct_setAdd)
  next
    case False
    with r Some have "gs' = gs"
      by (cases sa2) (auto simp: groupState_def)
    with ok show ?thesis by simp
  qed
next
  case None
  then have notin: "k \<notin> fst ` set gs" by (simp add: map_of_eq_None_iff)
  show ?thesis
  proof (cases "inheritedKey k")
    case True
    with r None have "gs' = gs"
      by (auto simp: groupState_def split: if_splits)
    with ok show ?thesis by simp
  next
    case False
    with r None obtain vs1 where gs': "gs' = gs @ [(k, vs1)]" and d1: "distinct vs1"
      by (auto simp: groupState_def split: option.splits if_splits)
    show ?thesis
      unfolding groupsOk_def gs'
      using ok notin d1 by (auto simp: groupsOk_def map_add_def split: option.splits if_splits)
  qed
qed

lemma scanFeature_ok:
  assumes "groupsOk (groups s)" and "scanFeature nts s f = Inr s'"
  shows "groupsOk (groups s')"
proof (cases "truthyOpt (getProp f ''STE_NAME21'')")
  case True
  then obtain v where v: "getProp f ''STE_NAME21'' = Some v" "truthy v"
    by (cases "getProp f ''STE_NAME21''") auto
  with assms(2) have "groupState (toString nts v) (getProp f ''SA2_NAME21'') (groups s) = Inr (groups s')"
    by (auto simp: scanFeature_def Let_def split: sum.splits)
  from groupState_ok [OF assms(1) this] show ?thesis .
next
  case False
  with assms(2) have "groups s' = groups s"
    by (cases "getProp f ''STE_NAME21''") (auto simp: scanFeature_def Let_def split: sum.splits)
  with assms(1) show ?thesis by simp
qed

lemma foldE_scanFeature_ok:
  "groupsOk (groups s) \<Longrightarrow> foldE (scanFeature nts) s fs = Inr s' \<Longrightarrow> groupsOk (groups s')"
proof (induction fs arbitrary: s)
  case Nil
  then show ?case by simp
next
  case (Cons f fs)
  from Cons.prems(2) obtain s1 where step: "scanFeature nts s f = Inr s1"
    and rest: "foldE (scanFeature nts) s1 fs = Inr s'"
    by (auto split: sum.splits)
  from Cons.IH [OF scanFeature_ok [OF Cons.prems(1) step] rest] show ?case .
qed

lemma sort_distinct_is_sorted_list_of_set:
  "distinct (xs :: string list) \<Longrightarrow> sort xs = sorted_list_of_set (set xs)"
  by (simp add: sorted_list_of_set_sort_remdups distinct_remdups_id)

text \<open>
  C5. \<open>buildMetadata\<close> reads nothing but its argument (and the platform's number
  printing), so it is a function of them: two results for one input are equal. The
  list \<open>states\<close> is the keys of \<open>sa2ByState\<close> in ascending order of their code units,
  each once, whatever the order they were met in; every entry of \<open>sa2ByState\<close> holds
  distinct members in ascending order of their strings.
\<close>

theorem buildMetadata_deterministic_sorted:
  "buildMetadata nts d = Inr m \<longrightarrow>
     (buildMetadata nts d = Inr m' \<longrightarrow> m' = m)
     \<and> states m = sorted_list_of_set (dom (sa2ByState m))
     \<and> sorted (states m) \<and> distinct (states m)
     \<and> (\<forall>k vs. sa2ByState m k = Some vs \<longrightarrow> sorted (map (toString nts) vs) \<and> distinct vs)"
proof
  assume r: "buildMetadata nts d = Inr m"
  then obtain s where f: "foldE (scanFeature nts) \<lparr>names = [], groups = [], irad = []\<rparr> (features d) = Inr s"
    and st: "states m = sort (map fst (groups s))"
    and sa: "sa2ByState m = map_of (map (\<lambda>(k, vs). (k, sortDefault nts vs)) (groups s))"
    by (auto simp: buildMetadata_def split: sum.splits)
  have "groupsOk (groups \<lparr>names = [], groups = [], irad = []\<rparr>)"
    by (simp add: groupsOk_def)
  from foldE_scanFeature_ok [OF this f] have ok: "groupsOk (groups s)" .
  then have dk: "distinct (map fst (groups s))" by (simp add: groupsOk_def)
  have sa': "sa2ByState m k = map_option (sortDefault nts) (map_of (groups s) k)" for k
    unfolding sa by (simp add: map_of_map)
  have "dom (sa2ByState m) = dom (map_of (groups s))"
    by (auto simp: sa' dom_def)
  then have dom: "dom (sa2ByState m) = set (map fst (groups s))"
    by (simp add: dom_map_of_conv_image_fst)
  have a: "states m = sorted_list_of_set (dom (sa2ByState m))"
    unfolding st dom by (rule sort_distinct_is_sorted_list_of_set [OF dk])
  have b: "sorted (states m)" "distinct (states m)"
    using dk by (simp_all add: st)
  have c: "sorted (map (toString nts) vs) \<and> distinct vs" if "sa2ByState m k = Some vs" for k vs
  proof -
    from that obtain vs0 where vs0: "map_of (groups s) k = Some vs0" "vs = sortDefault nts vs0"
      by (auto simp: sa')
    from ok vs0(1) have "distinct vs0" by (auto simp: groupsOk_def)
    then show ?thesis by (simp add: vs0(2) sortDefault_def)
  qed
  from r a b c show "(buildMetadata nts d = Inr m' \<longrightarrow> m' = m)
     \<and> states m = sorted_list_of_set (dom (sa2ByState m))
     \<and> sorted (states m) \<and> distinct (states m)
     \<and> (\<forall>k vs. sa2ByState m k = Some vs \<longrightarrow> sorted (map (toString nts) vs) \<and> distinct vs)"
    by simp
qed

lemma scan_example_1:
  "scanFeature nts \<lparr>names = [], groups = [], irad = []\<rparr>
     \<lparr>geometry = None, properties = Some [(''STE_NAME21'', VStr ''WA''), (''SA2_NAME21'', VStr ''Perth'')]\<rparr> =
   Inr \<lparr>names = [''STE_NAME21'', ''SA2_NAME21''], groups = [(''WA'', [VStr ''Perth''])], irad = []\<rparr>"
  by (simp add: scanFeature_def groupState_def getProp_def setAdd_def inheritedKey_def
      objectProtoMethods_def Let_def)

lemma scan_example_2:
  "scanFeature nts
     \<lparr>names = [''STE_NAME21'', ''SA2_NAME21''], groups = [(''WA'', [VStr ''Perth''])], irad = []\<rparr>
     \<lparr>geometry = None, properties = Some [(''STE_NAME21'', VStr ''VIC''), (''SA2_NAME21'', VStr ''Carlton'')]\<rparr> =
   Inr \<lparr>names = [''STE_NAME21'', ''SA2_NAME21''],
        groups = [(''WA'', [VStr ''Perth'']), (''VIC'', [VStr ''Carlton''])], irad = []\<rparr>"
  by (simp add: scanFeature_def groupState_def getProp_def setAdd_def inheritedKey_def
      objectProtoMethods_def Let_def)

lemma scan_example_3:
  "scanFeature nts
     \<lparr>names = [''STE_NAME21'', ''SA2_NAME21''],
      groups = [(''WA'', [VStr ''Perth'']), (''VIC'', [VStr ''Carlton''])], irad = []\<rparr>
     \<lparr>geometry = None, properties = Some [(''STE_NAME21'', VStr ''WA''), (''SA2_NAME21'', VStr ''Albany'')]\<rparr> =
   Inr \<lparr>names = [''STE_NAME21'', ''SA2_NAME21''],
        groups = [(''WA'', [VStr ''Perth'', VStr ''Albany'']), (''VIC'', [VStr ''Carlton''])], irad = []\<rparr>"
  by (simp add: scanFeature_def groupState_def getProp_def setAdd_def inheritedKey_def
      objectProtoMethods_def Let_def)

lemma sort_example: "sort [''WA'', ''VIC''] = [''VIC'', ''WA'']"
  by (simp add: less_eq_list_code less_list_code)

lemma sortDefault_example: "sortDefault nts [VStr ''Perth'', VStr ''Albany''] = [VStr ''Albany'', VStr ''Perth'']"
  by (simp add: sortDefault_def less_eq_list_code less_list_code)

lemma foldE_example:
  "foldE (scanFeature nts) \<lparr>names = [], groups = [], irad = []\<rparr> (features exampleSa1) =
   Inr \<lparr>names = [''STE_NAME21'', ''SA2_NAME21''],
        groups = [(''WA'', [VStr ''Perth'', VStr ''Albany'']), (''VIC'', [VStr ''Carlton''])], irad = []\<rparr>"
  by (simp add: exampleSa1_def scan_example_1 scan_example_2 scan_example_3)

text \<open>
  On the small polygon dataset the states come out as VIC, WA and the sub-regions of
  WA as Albany, Perth, although the features were met in the order WA (Perth), VIC, WA
  (Albany).
\<close>

theorem buildMetadata_deterministic_sorted_witness:
  "\<exists>m. buildMetadata (\<lambda>n. []) exampleSa1 = Inr m
       \<and> states m = [''VIC'', ''WA'']
       \<and> sa2ByState m ''WA'' = Some [VStr ''Albany'', VStr ''Perth'']
       \<and> states m = sorted_list_of_set (dom (sa2ByState m))
       \<and> sorted (states m) \<and> distinct (states m)
       \<and> sorted (map (toString (\<lambda>n. [])) [VStr ''Albany'', VStr ''Perth''])"
proof -
  obtain m where m: "buildMetadata (\<lambda>n. []) exampleSa1 = Inr m"
    by (simp add: buildMetadata_def foldE_example)
  from m have st: "states m = [''VIC'', ''WA'']"
    by (auto simp: buildMetadata_def foldE_example sort_example)
  from m have wa: "sa2ByState m ''WA'' = Some [VStr ''Albany'', VStr ''Perth'']"
    by (auto simp: buildMetadata_def foldE_example sortDefault_example)
  from buildMetadata_deterministic_sorted [of "\<lambda>n. []" exampleSa1 m m] m
  have "states m = sorted_list_of_set (dom (sa2ByState m))"
    and "sorted (states m)" and "distinct (states m)"
    and "\<forall>k vs. sa2ByState m k = Some vs \<longrightarrow> sorted (map (toString (\<lambda>n. [])) vs) \<and> distinct vs"
    by simp_all
  with m st wa show ?thesis by blast
qed

section \<open>loadMapData\<close>

lemmas path_defs = SA1_FILE_def SCHOOLS_FILE_def CATCHMENTS_FILE_def TRANSIT_FILE_def
  ARCGIS_MANIFEST_def

lemma fetchJson_None_iff:
  "fetchJson net path = None \<longleftrightarrow> (case net path of Json body \<Rightarrow> False | _ \<Rightarrow> True)"
  by (simp add: fetchJson_def split: response.splits)

lemma ensureSchoolStages_None_iff: "ensureSchoolStages c = Inr None \<longleftrightarrow> c = None"
  by (auto simp: ensureSchoolStages_def split: option.splits sum.splits)

lemma loadMapData_Inr:
  assumes "loadMapData nts srv = Inr snap"
  obtains d meta staged summ where
    "fetchJson (geojson srv) SA1_FILE = Some d"
    "buildMetadata nts d = Inr meta"
    "ensureSchoolStages (fetchJson (geojson srv) SCHOOLS_FILE) = Inr staged"
    "summarizeSchools nts staged = Inr summ"
    "snap = \<lparr>sa1 = d,
       metadata = meta,
       transit = groupTransitLayers nts (fetchJson (geojson srv) TRANSIT_FILE),
       schools = staged,
       schoolsSummary = summ,
       catchments = layers (summarizeCatchments (fetchJson (geojson srv) CATCHMENTS_FILE)),
       catchmentsSummary = summary (summarizeCatchments (fetchJson (geojson srv) CATCHMENTS_FILE)),
       catchmentsWarning = warning (summarizeCatchments (fetchJson (geojson srv) CATCHMENTS_FILE)),
       transitWarning =
         (case fetchJson (geojson srv) TRANSIT_FILE of
            Some t \<Rightarrow> None
          | None \<Rightarrow> Some ''Transit GeoJSON missing from assets.''),
       schoolsWarning =
         (case staged of
            Some s \<Rightarrow> None
          | None \<Rightarrow> Some ''Schools GeoJSON missing from assets.''),
       rankingWarning =
         (case staged of
            None \<Rightarrow> None
          | Some s \<Rightarrow>
              if features s \<noteq> [] \<and> \<not> list_ex hasRanking (features s)
              then Some rankingMessage else None),
       seifaWarning =
         (if seifaColumns meta \<noteq> [] then None
          else Some ''SEIFA fields missing from SA1 GeoJSON.''),
       arcgisManifest = loadArcgisManifest (manifest srv)\<rparr>"
  using assms
  by (auto simp: loadMapData_def Let_def split: option.splits sum.splits)

lemma loadMapData_missing_sa1:
  "fetchJson (geojson srv) SA1_FILE = None \<Longrightarrow> loadMapData nts srv = Inl (LoadError sa1Required)"
  by (simp add: loadMapData_def Let_def)

lemma foldE_error:
  assumes "\<And>s x e. step s x = Inl e \<Longrightarrow> e = TypeError"
  shows "foldE step s xs = Inl e \<Longrightarrow> e = TypeError"
proof (induction xs arbitrary: s)
  case Nil
  then show ?case by simp
next
  case (Cons x xs)
  show ?case
  proof (cases "step s x")
    case (Inl e')
    with Cons.prems assms [OF Inl] show ?thesis by simp
  next
    case (Inr s')
    with Cons.prems have "foldE step s' xs = Inl e" by simp
    from Cons.IH [OF this] show ?thesis .
  qed
qed

lemma mapE_error:
  assumes "\<And>x e. g x = Inl e \<Longrightarrow> e = TypeError"
  shows "mapE g xs = Inl e \<Longrightarrow> e = TypeError"
proof (induction xs)
  case Nil
  then show ?case by simp
next
  case (Cons x xs)
  show ?case
  proof (cases "g x")
    case (Inl e')
    with Cons.prems assms [OF Inl] show ?thesis by simp
  next
    case (Inr y)
    with Cons.prems have "mapE g xs = Inl e" by (auto split: sum.splits)
    from Cons.IH [OF this] show ?thesis .
  qed
qed

lemma groupState_error: "groupState k sa2 gs = Inl e \<Longrightarrow> e = TypeError"
  by (auto simp: groupState_def split: option.splits if_splits)

lemma scanFeature_error: "scanFeature nts s f = Inl e \<Longrightarrow> e = TypeError"
  by (auto simp: scanFeature_def Let_def split: option.splits if_splits sum.splits
      dest: groupState_error)

lemma buildMetadata_error: "buildMetadata nts d = Inl e \<Longrightarrow> e = TypeError"
  using foldE_error [of "scanFeature nts" _ _ e, OF scanFeature_error]
  by (auto simp: buildMetadata_def split: sum.splits)

lemma normalize_error: "normalize v = Inl e \<Longrightarrow> e = TypeError"
  by (auto simp: normalize_def split: option.splits if_splits jsval.splits)

lemma computeStage_error: "computeStage lo hi = Inl e \<Longrightarrow> e = TypeError"
  by (auto simp: computeStage_def Let_def split: sum.splits dest: normalize_error)

lemma ensureFeatureStage_error: "ensureFeatureStage f = Inl e \<Longrightarrow> e = TypeError"
  by (auto simp: ensureFeatureStage_def Let_def split: if_splits sum.splits dest: computeStage_error)

lemma ensureSchoolStages_error: "ensureSchoolStages c = Inl e \<Longrightarrow> e = TypeError"
  using mapE_error [of ensureFeatureStage _ e, OF ensureFeatureStage_error]
  by (auto simp: ensureSchoolStages_def split: option.splits sum.splits)

lemma stageKey_error: "stageKey v = Inl e \<Longrightarrow> e = TypeError"
  by (auto simp: stageKey_def split: option.splits if_splits jsval.splits)

lemma countFeature_error: "countFeature nts s f = Inl e \<Longrightarrow> e = TypeError"
  by (auto simp: countFeature_def Let_def split: sum.splits dest: stageKey_error)

lemma summarizeSchools_error: "summarizeSchools nts c = Inl e \<Longrightarrow> e = TypeError"
  using foldE_error [of "countFeature nts" _ _ e, OF countFeature_error]
  by (auto simp: summarizeSchools_def split: option.splits if_splits sum.splits)

lemma loadMapData_Inl:
  assumes "loadMapData nts srv = Inl e"
  shows "(e = LoadError sa1Required \<and> fetchJson (geojson srv) SA1_FILE = None)
       \<or> (e = TypeError \<and> (\<exists>d. fetchJson (geojson srv) SA1_FILE = Some d
              \<and> (buildMetadata nts d = Inl TypeError
                  \<or> (\<exists>sc. fetchJson (geojson srv) SCHOOLS_FILE = Some sc))))"
proof (cases "fetchJson (geojson srv) SA1_FILE")
  case None
  with assms show ?thesis by (simp add: loadMapData_def Let_def)
next
  case (Some d)
  show ?thesis
  proof (cases "buildMetadata nts d")
    case (Inl e')
    with buildMetadata_error [OF Inl] assms Some show ?thesis
      by (simp add: loadMapData_def Let_def)
  next
    case meta: (Inr meta)
    show ?thesis
    proof (cases "fetchJson (geojson srv) SCHOOLS_FILE")
      case None
      with assms Some meta show ?thesis
        by (simp add: loadMapData_def Let_def ensureSchoolStages_def summarizeSchools_def)
    next
      case sc: (Some sc)
      show ?thesis
      proof (cases "ensureSchoolStages (Some sc)")
        case (Inl e')
        with ensureSchoolStages_error [OF Inl] assms Some meta sc show ?thesis
          by (simp add: loadMapData_def Let_def)
      next
        case staged: (Inr staged)
        show ?thesis
        proof (cases "summarizeSchools nts staged")
          case (Inl e')
          with summarizeSchools_error [OF Inl] assms Some meta sc staged show ?thesis
            by (simp add: loadMapData_def Let_def)
        next
          case (Inr summ)
          with assms Some meta sc staged show ?thesis
            by (simp add: loadMapData_def Let_def)
        qed
      qed
    qed
  qed
qed

text \<open>
  C6 does not hold as stated, for two reasons. When every dataset but the ArcGIS manifest
  is there, the fetch of the manifest yields null, the load succeeds with the empty
  manifest, and the snapshot carries no warning at all. And when the polygon dataset
  is there but a school has the number 7 for \<open>lowyear\<close>, the load fails.
\<close>

theorem loadMapData_manifest_unwarned:
  "fetchJson (manifest srvNoManifest) ARCGIS_MANIFEST = None
   \<and> map_sum id arcgisManifest (loadMapData (\<lambda>n. []) srvNoManifest) = Inr \<lparr>manifestLayers = []\<rparr>
   \<and> map_sum id transitWarning (loadMapData (\<lambda>n. []) srvNoManifest) = Inr None
   \<and> map_sum id schoolsWarning (loadMapData (\<lambda>n. []) srvNoManifest) = Inr None
   \<and> map_sum id catchmentsWarning (loadMapData (\<lambda>n. []) srvNoManifest) = Inr None
   \<and> map_sum id rankingWarning (loadMapData (\<lambda>n. []) srvNoManifest) = Inr None
   \<and> map_sum id seifaWarning (loadMapData (\<lambda>n. []) srvNoManifest) = Inr None
   \<and> fetchJson (geojson srvBadYear) SA1_FILE = Some \<lparr>features = []\<rparr>
   \<and> loadMapData (\<lambda>n. []) srvBadYear = Inl TypeError"
proof -
  have meta: "buildMetadata (\<lambda>n. []) seifaSa1 =
      Inr \<lparr>states = [], sa2ByState = Map.empty, totalBounds = None, stateCenters = Map.empty,
           propertyNames = [''URP''], count = 1, iradRange = None, seifaColumns = [''URP'']\<rparr>"
    by (simp add: buildMetadata_def seifaSa1_def scanFeature_def getProp_def setAdd_def Let_def
        computeBounds_def featurePoints_def stateCenterEntries_def isSeifaColumn_def
        seifaPrefixes_def startsWith_def)
  have staged: "ensureSchoolStages (Some rankedSchools) = Inr (Some rankedSchools)"
    by (simp add: ensureSchoolStages_def ensureFeatureStage_def rankedSchools_def)
  obtain summ where summ: "summarizeSchools (\<lambda>n. []) (Some rankedSchools) = Inr summ"
    by (simp add: summarizeSchools_def rankedSchools_def countFeature_def stageKey_def Let_def
        getProp_def)
  have rank: "list_ex hasRanking (features rankedSchools)"
    by (simp add: rankedSchools_def hasRanking_def)
  have ne: "features rankedSchools \<noteq> []"
    by (simp add: rankedSchools_def)
  have catch: "warning (summarizeCatchments (Some someCatchments)) = None"
    by (simp add: summarizeCatchments_def someCatchments_def Let_def)
  have fetches:
    "fetchJson (geojson srvNoManifest) SA1_FILE = Some seifaSa1"
    "fetchJson (geojson srvNoManifest) TRANSIT_FILE = Some someTransit"
    "fetchJson (geojson srvNoManifest) SCHOOLS_FILE = Some rankedSchools"
    "fetchJson (geojson srvNoManifest) CATCHMENTS_FILE = Some someCatchments"
    "fetchJson (manifest srvNoManifest) ARCGIS_MANIFEST = None"
    by (simp_all add: fetchJson_def srvNoManifest_def path_defs)
  have load: "loadMapData (\<lambda>n. []) srvNoManifest =
      Inr \<lparr>sa1 = seifaSa1,
           metadata = \<lparr>states = [], sa2ByState = Map.empty, totalBounds = None,
                       stateCenters = Map.empty, propertyNames = [''URP''], count = 1,
                       iradRange = None, seifaColumns = [''URP'']\<rparr>,
           transit = groupTransitLayers (\<lambda>n. []) (Some someTransit),
           schools = Some rankedSchools,
           schoolsSummary = summ,
           catchments = layers (summarizeCatchments (Some someCatchments)),
           catchmentsSummary = summary (summarizeCatchments (Some someCatchments)),
           catchmentsWarning = None,
           transitWarning = None,
           schoolsWarning = None,
           rankingWarning = None,
           seifaWarning = None,
           arcgisManifest = \<lparr>manifestLayers = []\<rparr>\<rparr>"
    by (simp add: loadMapData_def loadArcgisManifest_def fetches meta staged summ rank ne catch Let_def)
  have bad: "loadMapData (\<lambda>n. []) srvBadYear = Inl TypeError"
    by (simp add: loadMapData_def loadArcgisManifest_def fetchJson_def srvBadYear_def path_defs
        buildMetadata_def computeBounds_def stateCenterEntries_def
        ensureSchoolStages_def ensureFeatureStage_def computeStage_def normalize_def)
  have sa1: "fetchJson (geojson srvBadYear) SA1_FILE = Some \<lparr>features = []\<rparr>"
    by (simp add: fetchJson_def srvBadYear_def path_defs)
  from fetches(5) load bad sa1 show ?thesis by simp
qed

lemma loadMapData_processed:
  assumes "fetchJson (geojson srv) SA1_FILE = Some d"
    and "buildMetadata nts d = Inr meta"
    and "ensureSchoolStages (fetchJson (geojson srv) SCHOOLS_FILE) = Inr staged"
    and "summarizeSchools nts staged = Inr summ"
  shows "\<exists>snap. loadMapData nts srv = Inr snap"
  using assms by (simp add: loadMapData_def Let_def)

lemma loadMapData_snapshot:
  assumes r: "loadMapData nts srv = Inr snap"
  shows "(fetchJson (geojson srv) TRANSIT_FILE = None \<longrightarrow>
           transit snap = \<lparr>train = None, bus = None, other = None, all = None\<rparr>
           \<and> transitWarning snap = Some ''Transit GeoJSON missing from assets.'')
        \<and> (fetchJson (geojson srv) SCHOOLS_FILE = None \<longrightarrow>
           schools snap = None \<and> schoolsSummary snap = None
           \<and> schoolsWarning snap = Some ''Schools GeoJSON missing from assets.'')
        \<and> (fetchJson (geojson srv) CATCHMENTS_FILE = None \<longrightarrow>
           catchments snap = Map.empty \<and> catchmentsSummary snap = None
           \<and> catchmentsWarning snap = Some ''Catchment GeoJSON not found or empty.'')
        \<and> (fetchJson (manifest srv) ARCGIS_MANIFEST = None \<longrightarrow>
           arcgisManifest snap = \<lparr>manifestLayers = []\<rparr>)"
proof (intro conjI impI)
  assume t: "fetchJson (geojson srv) TRANSIT_FILE = None"
  from r t show "transit snap = \<lparr>train = None, bus = None, other = None, all = None\<rparr>"
    by (elim loadMapData_Inr) (simp add: groupTransitLayers_def)
  from r t show "transitWarning snap = Some ''Transit GeoJSON missing from assets.''"
    by (elim loadMapData_Inr) simp
next
  assume t: "fetchJson (geojson srv) SCHOOLS_FILE = None"
  from r t show "schools snap = None"
    by (elim loadMapData_Inr) (simp add: ensureSchoolStages_def)
  from r t show "schoolsSummary snap = None"
    by (elim loadMapData_Inr) (auto simp: ensureSchoolStages_def summarizeSchools_def)
  from r t show "schoolsWarning snap = Some ''Schools GeoJSON missing from assets.''"
    by (elim loadMapData_Inr) (auto simp: ensureSchoolStages_def)
next
  assume t: "fetchJson (geojson srv) CATCHMENTS_FILE = None"
  from r t show "catchments snap = Map.empty"
    by (elim loadMapData_Inr) (simp add: summarizeCatchments_def)
  from r t show "catchmentsSummary snap = None"
    by (elim loadMapData_Inr) (simp add: summarizeCatchments_def)
  from r t show "catchmentsWarning snap = Some ''Catchment GeoJSON not found or empty.''"
    by (elim loadMapData_Inr) (simp add: summarizeCatchments_def)
next
  assume t: "fetchJson (manifest srv) ARCGIS_MANIFEST = None"
  from r t show "arcgisManifest snap = \<lparr>manifestLayers = []\<rparr>"
    by (elim loadMapData_Inr) (simp add: loadArcgisManifest_def)
qed

lemma loadMapData_parts:
  assumes snap: "loadMapData nts srv = Inr snap"
    and h1: "fetchJson (geojson srv) SA1_FILE = Some d"
    and h2: "buildMetadata nts d = Inr meta"
    and h3: "ensureSchoolStages (fetchJson (geojson srv) SCHOOLS_FILE) = Inr staged"
    and h4: "summarizeSchools nts staged = Inr summ"
  shows "sa1 snap = d \<and> metadata snap = meta \<and> schools snap = staged \<and> schoolsSummary snap = summ"
  using snap h1 h2 h3 h4 by (simp add: loadMapData_def Let_def) auto

lemma loadMapData_success:
  assumes h1: "fetchJson (geojson srv) SA1_FILE = Some d"
    and h2: "buildMetadata nts d = Inr meta"
    and h3: "ensureSchoolStages (fetchJson (geojson srv) SCHOOLS_FILE) = Inr staged"
    and h4: "summarizeSchools nts staged = Inr summ"
  shows "\<exists>snap. loadMapData nts srv = Inr snap
           \<and> sa1 snap = d \<and> metadata snap = meta
           \<and> schools snap = staged \<and> schoolsSummary snap = summ
           \<and> (fetchJson (geojson srv) TRANSIT_FILE = None \<longrightarrow>
                transit snap = \<lparr>train = None, bus = None, other = None, all = None\<rparr>
                \<and> transitWarning snap = Some ''Transit GeoJSON missing from assets.'')
           \<and> (fetchJson (geojson srv) SCHOOLS_FILE = None \<longrightarrow>
                schools snap = None \<and> schoolsSummary snap = None
                \<and> schoolsWarning snap = Some ''Schools GeoJSON missing from assets.'')
           \<and> (fetchJson (geojson srv) CATCHMENTS_FILE = None \<longrightarrow>
                catchments snap = Map.empty \<and> catchmentsSummary snap = None
                \<and> catchmentsWarning snap = Some ''Catchment GeoJSON not found or empty.'')
           \<and> (fetchJson (manifest srv) ARCGIS_MANIFEST = None \<longrightarrow>
                arcgisManifest snap = \<lparr>manifestLayers = []\<rparr>)"
proof -
  from loadMapData_processed [OF h1 h2 h3 h4] obtain snap
    where snap: "loadMapData nts srv = Inr snap" ..
  note p = loadMapData_parts [OF snap h1 h2 h3 h4]
  note w = loadMapData_snapshot [OF snap]
  show ?thesis
  proof (rule exI [of _ snap], intro conjI)
    show "loadMapData nts srv = Inr snap" by (rule snap)
    show "sa1 snap = d" using p by simp
    show "metadata snap = meta" using p by simp
    show "schools snap = staged" using p by simp
    show "schoolsSummary snap = summ" using p by simp
    show "fetchJson (geojson srv) TRANSIT_FILE = None \<longrightarrow>
                transit snap = \<lparr>train = None, bus = None, other = None, all = None\<rparr>
                \<and> transitWarning snap = Some ''Transit GeoJSON missing from assets.''"
      using w by (rule conjunct1)
    show "fetchJson (geojson srv) SCHOOLS_FILE = None \<longrightarrow>
                schools snap = None \<and> schoolsSummary snap = None
                \<and> schoolsWarning snap = Some ''Schools GeoJSON missing from assets.''"
      using w by (rule conjunct1 [OF conjunct2])
    show "fetchJson (geojson srv) CATCHMENTS_FILE = None \<longrightarrow>
                catchments snap = Map.empty \<and> catchmentsSummary snap = None
                \<and> catchmentsWarning snap = Some ''Catchment GeoJSON not found or empty.''"
      using w by (rule conjunct1 [OF conjunct2 [OF conjunct2]])
    show "fetchJson (manifest srv) ARCGIS_MANIFEST = None \<longrightarrow>
                arcgisManifest snap = \<lparr>manifestLayers = []\<rparr>"
      using w by (rule conjunct2 [OF conjunct2 [OF conjunct2]])
  qed
qed

text \<open>
  C6, amended. A fetch yields null exactly when the file is not served as JSON. The
  load raises its failure "SA1 dataset is required" exactly when the fetch of the
  polygon dataset yields null. A schools fetch that yielded null is staged and
  summarised to null without an error. Whenever the polygon dataset is fetched and
  building its metadata, staging the schools and summarising them raise no error, the
  load succeeds, whatever the transit, catchments and manifest fetches yielded, with
  that dataset, metadata, staged schools and summary in the snapshot. In the snapshot,
  a transit, schools or catchments fetch that yielded null leaves that part empty and
  its warning recorded, and a manifest fetch that yielded null leaves the empty
  manifest, for which the snapshot has no warning.
\<close>

theorem loadMapData_outcomes:
  "(fetchJson net path = None \<longleftrightarrow> (case net path of Json body \<Rightarrow> False | _ \<Rightarrow> True))
   \<and> (fetchJson (geojson srv) SA1_FILE = None \<longrightarrow>
        loadMapData nts srv = Inl (LoadError sa1Required))
   \<and> (loadMapData nts srv = Inl (LoadError msg) \<longrightarrow>
        msg = sa1Required \<and> fetchJson (geojson srv) SA1_FILE = None)
   \<and> (fetchJson (geojson srv) SCHOOLS_FILE = None \<longrightarrow>
        ensureSchoolStages (fetchJson (geojson srv) SCHOOLS_FILE) = Inr None
        \<and> summarizeSchools nts None = Inr None)
   \<and> (fetchJson (geojson srv) SA1_FILE = Some d \<and> buildMetadata nts d = Inr meta
        \<and> ensureSchoolStages (fetchJson (geojson srv) SCHOOLS_FILE) = Inr staged
        \<and> summarizeSchools nts staged = Inr summ \<longrightarrow>
        (\<exists>snap. loadMapData nts srv = Inr snap
           \<and> sa1 snap = d \<and> metadata snap = meta
           \<and> schools snap = staged \<and> schoolsSummary snap = summ
           \<and> (fetchJson (geojson srv) TRANSIT_FILE = None \<longrightarrow>
                transit snap = \<lparr>train = None, bus = None, other = None, all = None\<rparr>
                \<and> transitWarning snap = Some ''Transit GeoJSON missing from assets.'')
           \<and> (fetchJson (geojson srv) SCHOOLS_FILE = None \<longrightarrow>
                schools snap = None \<and> schoolsSummary snap = None
                \<and> schoolsWarning snap = Some ''Schools GeoJSON missing from assets.'')
           \<and> (fetchJson (geojson srv) CATCHMENTS_FILE = None \<longrightarrow>
                catchments snap = Map.empty \<and> catchmentsSummary snap = None
                \<and> catchmentsWarning snap = Some ''Catchment GeoJSON not found or empty.'')
           \<and> (fetchJson (manifest srv) ARCGIS_MANIFEST = None \<longrightarrow>
                arcgisManifest snap = \<lparr>manifestLayers = []\<rparr>)))
   \<and> (fetchJson (geojson srv) SA1_FILE = Some d \<and> buildMetadata nts d = Inr meta
        \<and> fetchJson (geojson srv) SCHOOLS_FILE = None \<longrightarrow>
        (\<exists>snap. loadMapData nts srv = Inr snap))
   \<and> (loadMapData nts srv = Inr snap' \<longrightarrow>
        (fetchJson (geojson srv) TRANSIT_FILE = None \<longrightarrow>
           transit snap' = \<lparr>train = None, bus = None, other = None, all = None\<rparr>
           \<and> transitWarning snap' = Some ''Transit GeoJSON missing from assets.'')
        \<and> (fetchJson (geojson srv) SCHOOLS_FILE = None \<longrightarrow>
           schools snap' = None \<and> schoolsSummary snap' = None
           \<and> schoolsWarning snap' = Some ''Schools GeoJSON missing from assets.'')
        \<and> (fetchJson (geojson srv) CATCHMENTS_FILE = None \<longrightarrow>
           catchments snap' = Map.empty \<and> catchmentsSummary snap' = None
           \<and> catchmentsWarning snap' = Some ''Catchment GeoJSON not found or empty.'')
        \<and> (fetchJson (manifest srv) ARCGIS_MANIFEST = None \<longrightarrow>
           arcgisManifest snap' = \<lparr>manifestLayers = []\<rparr>))"
proof (intro conjI)
  show "fetchJson net path = None \<longleftrightarrow> (case net path of Json body \<Rightarrow> False | _ \<Rightarrow> True)"
    by (rule fetchJson_None_iff)
  show "fetchJson (geojson srv) SA1_FILE = None \<longrightarrow>
        loadMapData nts srv = Inl (LoadError sa1Required)"
    by (rule impI) (rule loadMapData_missing_sa1)
  show "loadMapData nts srv = Inl (LoadError msg) \<longrightarrow>
        msg = sa1Required \<and> fetchJson (geojson srv) SA1_FILE = None"
  proof
    assume a: "loadMapData nts srv = Inl (LoadError msg)"
    from loadMapData_Inl [OF a] show "msg = sa1Required \<and> fetchJson (geojson srv) SA1_FILE = None"
      by simp
  qed
  show "fetchJson (geojson srv) SCHOOLS_FILE = None \<longrightarrow>
        ensureSchoolStages (fetchJson (geojson srv) SCHOOLS_FILE) = Inr None
        \<and> summarizeSchools nts None = Inr None"
    by (simp add: ensureSchoolStages_def summarizeSchools_def)
  show "fetchJson (geojson srv) SA1_FILE = Some d \<and> buildMetadata nts d = Inr meta
        \<and> ensureSchoolStages (fetchJson (geojson srv) SCHOOLS_FILE) = Inr staged
        \<and> summarizeSchools nts staged = Inr summ \<longrightarrow>
        (\<exists>snap. loadMapData nts srv = Inr snap
           \<and> sa1 snap = d \<and> metadata snap = meta
           \<and> schools snap = staged \<and> schoolsSummary snap = summ
           \<and> (fetchJson (geojson srv) TRANSIT_FILE = None \<longrightarrow>
                transit snap = \<lparr>train = None, bus = None, other = None, all = None\<rparr>
                \<and> transitWarning snap = Some ''Transit GeoJSON missing from assets.'')
           \<and> (fetchJson (geojson srv) SCHOOLS_FILE = None \<longrightarrow>
                schools snap = None \<and> schoolsSummary snap = None
                \<and> schoolsWarning snap = Some ''Schools GeoJSON missing from assets.'')
           \<and> (fetchJson (geojson srv) CATCHMENTS_FILE = None \<longrightarrow>
                catchments snap = Map.empty \<and> catchmentsSummary snap = None
                \<and> catchmentsWarning snap = Some ''Catchment GeoJSON not found or empty.'')
           \<and> (fetchJson (manifest srv) ARCGIS_MANIFEST = None \<longrightarrow>
                arcgisManifest snap = \<lparr>manifestLayers = []\<rparr>))"
  proof
    assume h: "fetchJson (geojson srv) SA1_FILE = Some d \<and> buildMetadata nts d = Inr meta
        \<and> ensureSchoolStages (fetchJson (geojson srv) SCHOOLS_FILE) = Inr staged
        \<and> summarizeSchools nts staged = Inr summ"
    show "\<exists>snap. loadMapData nts srv = Inr snap
           \<and> sa1 snap = d \<and> metadata snap = meta
           \<and> schools snap = staged \<and> schoolsSummary snap = summ
           \<and> (fetchJson (geojson srv) TRANSIT_FILE = None \<longrightarrow>
                transit snap = \<lparr>train = None, bus = None, other = None, all = None\<rparr>
                \<and> transitWarning snap = Some ''Transit GeoJSON missing from assets.'')
           \<and> (fetchJson (geojson srv) SCHOOLS_FILE = None \<longrightarrow>
                schools snap = None \<and> schoolsSummary snap = None
                \<and> schoolsWarning snap = Some ''Schools GeoJSON missing from assets.'')
           \<and> (fetchJson (geojson srv) CATCHMENTS_FILE = None \<longrightarrow>
                catchments snap = Map.empty \<and> catchmentsSummary snap = None
                \<and> catchmentsWarning snap = Some ''Catchment GeoJSON not found or empty.'')
           \<and> (fetchJson (manifest srv) ARCGIS_MANIFEST = None \<longrightarrow>
                arcgisManifest snap = \<lparr>manifestLayers = []\<rparr>)"
      by (rule loadMapData_success
          [OF conjunct1 [OF h] conjunct1 [OF conjunct2 [OF h]]
              conjunct1 [OF conjunct2 [OF conjunct2 [OF h]]]
              conjunct2 [OF conjunct2 [OF conjunct2 [OF h]]]])
  qed
  show "fetchJson (geojson srv) SA1_FILE = Some d \<and> buildMetadata nts d = Inr meta
        \<and> fetchJson (geojson srv) SCHOOLS_FILE = None \<longrightarrow>
        (\<exists>snap. loadMapData nts srv = Inr snap)"
    by (simp add: loadMapData_def Let_def ensureSchoolStages_def summarizeSchools_def)
  show "loadMapData nts srv = Inr snap' \<longrightarrow>
        (fetchJson (geojson srv) TRANSIT_FILE = None \<longrightarrow>
           transit snap' = \<lparr>train = None, bus = None, other = None, all = None\<rparr>
           \<and> transitWarning snap' = Some ''Transit GeoJSON missing from assets.'')
        \<and> (fetchJson (geojson srv) SCHOOLS_FILE = None \<longrightarrow>
           schools snap' = None \<and> schoolsSummary snap' = None
           \<and> schoolsWarning snap' = Some ''Schools GeoJSON missing from assets.'')
        \<and> (fetchJson (geojson srv) CATCHMENTS_FILE = None \<longrightarrow>
           catchments snap' = Map.empty \<and> catchmentsSummary snap' = None
           \<and> catchmentsWarning snap' = Some ''Catchment GeoJSON not found or empty.'')
        \<and> (fetchJson (manifest srv) ARCGIS_MANIFEST = None \<longrightarrow>
           arcgisManifest snap' = \<lparr>manifestLayers = []\<rparr>)"
    by (rule impI) (rule loadMapData_snapshot)
qed

lemma ensureSchoolStages_rankedSchools:
  "ensureSchoolStages (Some rankedSchools) = Inr (Some rankedSchools)"
  by (simp add: ensureSchoolStages_def ensureFeatureStage_def rankedSchools_def)

text \<open>
  A server that holds nothing fails the load. A server that holds the polygon dataset
  and the schools, but neither transit nor catchments nor a manifest, gives a snapshot
  with the schools, the transit and catchments warnings and the empty manifest. A
  server that holds the polygon dataset only gives a snapshot with the three warnings.
\<close>

theorem loadMapData_outcomes_witness:
  "loadMapData (\<lambda>n. []) srvNothing = Inl (LoadError sa1Required)
   \<and> (\<exists>snap. loadMapData (\<lambda>n. []) srvSa1Schools = Inr snap
         \<and> sa1 snap = exampleSa1
         \<and> schools snap = Some rankedSchools
         \<and> transit snap = \<lparr>train = None, bus = None, other = None, all = None\<rparr>
         \<and> transitWarning snap = Some ''Transit GeoJSON missing from assets.''
         \<and> catchmentsWarning snap = Some ''Catchment GeoJSON not found or empty.''
         \<and> arcgisManifest snap = \<lparr>manifestLayers = []\<rparr>)
   \<and> (\<exists>snap. loadMapData (\<lambda>n. []) srvOnlySa1 = Inr snap
         \<and> transitWarning snap = Some ''Transit GeoJSON missing from assets.''
         \<and> schoolsWarning snap = Some ''Schools GeoJSON missing from assets.''
         \<and> catchmentsWarning snap = Some ''Catchment GeoJSON not found or empty.''
         \<and> arcgisManifest snap = \<lparr>manifestLayers = []\<rparr>)"
proof -
  have f0: "fetchJson (geojson srvNothing) SA1_FILE = None"
    by (simp add: fetchJson_def srvNothing_def)
  note t0 = loadMapData_outcomes [where srv = srvNothing and nts = "\<lambda>n. []"]
  from t0 [THEN conjunct2, THEN conjunct1, THEN mp, OF f0]
  have first: "loadMapData (\<lambda>n. []) srvNothing = Inl (LoadError sa1Required)" .
  obtain m where m: "buildMetadata (\<lambda>n. []) exampleSa1 = Inr m"
    by (simp add: buildMetadata_def foldE_example)
  obtain summ where summ: "summarizeSchools (\<lambda>n. []) (Some rankedSchools) = Inr summ"
    by (simp add: summarizeSchools_def rankedSchools_def countFeature_def stageKey_def Let_def
        getProp_def)
  have f2: "fetchJson (geojson srvSa1Schools) SA1_FILE = Some exampleSa1"
    "fetchJson (geojson srvSa1Schools) SCHOOLS_FILE = Some rankedSchools"
    "fetchJson (geojson srvSa1Schools) TRANSIT_FILE = None"
    "fetchJson (geojson srvSa1Schools) CATCHMENTS_FILE = None"
    "fetchJson (manifest srvSa1Schools) ARCGIS_MANIFEST = None"
    by (simp_all add: fetchJson_def srvSa1Schools_def path_defs)
  have h2: "fetchJson (geojson srvSa1Schools) SA1_FILE = Some exampleSa1
      \<and> buildMetadata (\<lambda>n. []) exampleSa1 = Inr m
      \<and> ensureSchoolStages (fetchJson (geojson srvSa1Schools) SCHOOLS_FILE) = Inr (Some rankedSchools)
      \<and> summarizeSchools (\<lambda>n. []) (Some rankedSchools) = Inr summ"
    by (simp add: f2 m summ ensureSchoolStages_rankedSchools)
  note t2 = loadMapData_outcomes [where srv = srvSa1Schools and nts = "\<lambda>n. []"
      and d = exampleSa1 and meta = m and staged = "Some rankedSchools" and summ = summ]
  from t2 [THEN conjunct2, THEN conjunct2, THEN conjunct2, THEN conjunct2, THEN conjunct1,
      THEN mp, OF h2]
  obtain snap2 where s2: "loadMapData (\<lambda>n. []) srvSa1Schools = Inr snap2
           \<and> sa1 snap2 = exampleSa1 \<and> metadata snap2 = m
           \<and> schools snap2 = Some rankedSchools \<and> schoolsSummary snap2 = summ
           \<and> (fetchJson (geojson srvSa1Schools) TRANSIT_FILE = None \<longrightarrow>
                transit snap2 = \<lparr>train = None, bus = None, other = None, all = None\<rparr>
                \<and> transitWarning snap2 = Some ''Transit GeoJSON missing from assets.'')
           \<and> (fetchJson (geojson srvSa1Schools) SCHOOLS_FILE = None \<longrightarrow>
                schools snap2 = None \<and> schoolsSummary snap2 = None
                \<and> schoolsWarning snap2 = Some ''Schools GeoJSON missing from assets.'')
           \<and> (fetchJson (geojson srvSa1Schools) CATCHMENTS_FILE = None \<longrightarrow>
                catchments snap2 = Map.empty \<and> catchmentsSummary snap2 = None
                \<and> catchmentsWarning snap2 = Some ''Catchment GeoJSON not found or empty.'')
           \<and> (fetchJson (manifest srvSa1Schools) ARCGIS_MANIFEST = None \<longrightarrow>
                arcgisManifest snap2 = \<lparr>manifestLayers = []\<rparr>)" ..
  have second: "\<exists>snap. loadMapData (\<lambda>n. []) srvSa1Schools = Inr snap
         \<and> sa1 snap = exampleSa1
         \<and> schools snap = Some rankedSchools
         \<and> transit snap = \<lparr>train = None, bus = None, other = None, all = None\<rparr>
         \<and> transitWarning snap = Some ''Transit GeoJSON missing from assets.''
         \<and> catchmentsWarning snap = Some ''Catchment GeoJSON not found or empty.''
         \<and> arcgisManifest snap = \<lparr>manifestLayers = []\<rparr>"
    by (rule exI [of _ snap2]) (use s2 f2 in simp)
  have f1: "fetchJson (geojson srvOnlySa1) SA1_FILE = Some exampleSa1"
    "fetchJson (geojson srvOnlySa1) TRANSIT_FILE = None"
    "fetchJson (geojson srvOnlySa1) SCHOOLS_FILE = None"
    "fetchJson (geojson srvOnlySa1) CATCHMENTS_FILE = None"
    "fetchJson (manifest srvOnlySa1) ARCGIS_MANIFEST = None"
    by (simp_all add: fetchJson_def srvOnlySa1_def path_defs)
  have h1: "fetchJson (geojson srvOnlySa1) SA1_FILE = Some exampleSa1
      \<and> buildMetadata (\<lambda>n. []) exampleSa1 = Inr m
      \<and> fetchJson (geojson srvOnlySa1) SCHOOLS_FILE = None"
    by (simp add: f1 m)
  note t1 = loadMapData_outcomes [where srv = srvOnlySa1 and nts = "\<lambda>n. []"
      and d = exampleSa1 and meta = m]
  from t1 [THEN conjunct2, THEN conjunct2, THEN conjunct2, THEN conjunct2, THEN conjunct2,
      THEN conjunct1, THEN mp, OF h1]
  obtain snap1 where s1: "loadMapData (\<lambda>n. []) srvOnlySa1 = Inr snap1" ..
  note t1' = loadMapData_outcomes [where srv = srvOnlySa1 and nts = "\<lambda>n. []" and snap' = snap1]
  note w1 = t1' [THEN conjunct2, THEN conjunct2, THEN conjunct2, THEN conjunct2, THEN conjunct2,
      THEN conjunct2, THEN mp, OF s1]
  have third: "\<exists>snap. loadMapData (\<lambda>n. []) srvOnlySa1 = Inr snap
         \<and> transitWarning snap = Some ''Transit GeoJSON missing from assets.''
         \<and> schoolsWarning snap = Some ''Schools GeoJSON missing from assets.''
         \<and> catchmentsWarning snap = Some ''Catchment GeoJSON not found or empty.''
         \<and> arcgisManifest snap = \<lparr>manifestLayers = []\<rparr>"
    by (rule exI [of _ snap1]) (use s1 w1 f1 in simp)
  from first second third show ?thesis by (intro conjI)
qed

end
